theory Spec2Isabelle
  imports Main "HOL-Library.Word"
begin

section \<open>The mpesa gateway client of service.go\<close>

text \<open>
  A shallow embedding of \<^verbatim>\<open>service.go\<close>: the constructor \<^verbatim>\<open>NewClient\<close>, the gateway
  operations \<^verbatim>\<open>SessionID\<close>, \<^verbatim>\<open>PushAsync\<close>, \<^verbatim>\<open>Disburse\<close> and \<^verbatim>\<open>QueryTx\<close>, and the
  webhook entry point \<^verbatim>\<open>CallbackServeHTTP\<close>.

  Conventions of the embedding.
  \<^item> A Go function returning \<^verbatim>\<open>(value, error)\<close> returns the pair of the value and an
    \<open>error option\<close> (\<open>None\<close> is \<^verbatim>\<open>nil\<close>): Go hands back both, and the file returns a
    partly filled response next to an error.
  \<^item> A panic (an explicit \<^verbatim>\<open>panic\<close>, a nil pointer dereference) is the outcome
    \<open>Panicked\<close>; a normal return is \<open>Returned\<close>.
  \<^item> The three type variables stand for types that the file uses and does not declare:
    \<open>'m\<close> for \<^verbatim>\<open>Market\<close>, \<open>'p\<close> for \<^verbatim>\<open>Platform\<close>, and \<open>'v\<close> for the values that the file only
    passes along (\<^verbatim>\<open>Request\<close>, the \<^verbatim>\<open>interface{}\<close> payload of the adapter,
    \<^verbatim>\<open>PushCallbackRequest\<close>, \<^verbatim>\<open>PushCallbackResponse\<close>, \<^verbatim>\<open>*http.Request\<close>, the logger of the
    base client, and the operation-specific fields of the responses).
  \<^item> \<^verbatim>\<open>*Config\<close> is an address into a store of \<^verbatim>\<open>Config\<close> objects, because the client keeps
    the caller's pointer and writes through it. An address outside the store is \<^verbatim>\<open>nil\<close>.
    The other pointers of the file are never shared, so \<^verbatim>\<open>*T\<close> is \<open>T option\<close>.
  \<^item> Everything outside the file (the clock, the encryption of a key, the request
    adapter, the HTTP executor, the webhook receiver) is a field of an environment
    record. The clock, the encryption, the executor and the receiver may answer
    differently on each call: they take the list of calls made so far.
  \<^item> \<^verbatim>\<open>context.Context\<close> arguments are left out: a deadline shows only as a failure of
    the executor or of the receiver, which the environment already covers. The two
    \<^verbatim>\<open>fmt.Printf\<close> lines that print a response to standard output are left out as well.
\<close>

subsection \<open>Errors, panics, time\<close>

text \<open>A Go error: \<^verbatim>\<open>Error()\<close> is its message, \<^verbatim>\<open>%w\<close> keeps the wrapped error.\<close>

datatype error = errorString (Error: string) | wrapError (Error: string) (Unwrap: error)

datatype 'a outcome = Returned 'a | Panicked string

definition nil_dereference :: string where
  "nil_dereference = ''runtime error: invalid memory address or nil pointer dereference''"

text \<open>
  \<^verbatim>\<open>time.Time\<close> is an instant in nanoseconds; \<^verbatim>\<open>time.Duration\<close> is an \<^verbatim>\<open>int64\<close> count of
  nanoseconds, so its arithmetic wraps. \<^verbatim>\<open>Time.Add\<close> is exact: the seconds of a
  \<^verbatim>\<open>time.Time\<close> range far beyond what one \<^verbatim>\<open>Duration\<close> can move them.
\<close>

type_synonym Time = int
type_synonym Duration = "64 word"

definition Minute :: Duration where
  "Minute = 60000000000"

definition Time_Add :: "Time \<Rightarrow> Duration \<Rightarrow> Time" where
  "Time_Add t d = t + sint d"

subsection \<open>The types of the file\<close>

type_synonym addr = nat

record Endpoints =
  AuthEndpoint :: string
  PushEndpoint :: string
  DisburseEndpoint :: string
  QueryEndpoint :: string

record ('m, 'p) Config =
  Endpoints :: "Endpoints option"
  Name :: string
  Version :: string
  Description :: string
  BasePath :: string
  Market :: 'm
  Platform :: 'p
  APIKey :: string
  PublicKey :: string
  SessionLifetimeMinutes :: "64 word"
  ServiceProvideCode :: string
  TrustedSources :: "string list"

text \<open>
  The operation kinds, declared outside the file; the file names \<^verbatim>\<open>sessionID\<close>, \<^verbatim>\<open>pushPay\<close>
  and \<^verbatim>\<open>disburse\<close>. (\<open>sessionID\<close> is also a field of the client, hence the suffix.)
\<close>

datatype requestType = sessionID_type | pushPay | disburse | query

record ('m, 'p) requestAdapter =
  platform :: 'p
  market :: 'm
  serviceProviderCode :: string

text \<open>
  The responses. The file reads \<^verbatim>\<open>OutputErr\<close> of all three and \<^verbatim>\<open>ID\<close> of the session
  response; what else a push or disburse response holds is one value of type \<open>'v\<close>.
\<close>

record GatewayResponse =
  OutputErr :: string

record SessionResponse = GatewayResponse +
  ID :: string

record 'v PushAsyncResponse = GatewayResponse +
  PushAsyncFields :: 'v

record 'v DisburseResponse = GatewayResponse +
  DisburseFields :: 'v

text \<open>
  The library \<^verbatim>\<open>base\<close>, as far as the file touches it: the two fields of \<^verbatim>\<open>base.Client\<close>
  that \<^verbatim>\<open>NewClient\<close> reads, and its constructors as free constructors.
\<close>

record 'v base_Client =
  Logger :: 'v
  DebugMode :: bool

datatype 'v Replier = NewReplier 'v bool

datatype 'v Receiver = NewReceiver 'v bool

datatype RequestOption = WithRequestHeaders "string \<rightharpoonup> string"

datatype ResponseOption = WithMoreResponseHeaders "string \<rightharpoonup> string"

datatype 'v base_Response = NewResponse int 'v "ResponseOption list"

text \<open>
  What \<^verbatim>\<open>base.Client.Do\<close> hands back: the error, the \<^verbatim>\<open>Error\<close> field of the result (read
  only when the error is \<^verbatim>\<open>nil\<close>, where the result is taken to be non-nil), and the
  value of the response variable whose address was passed in.
\<close>

record 'r DoResult =
  err :: "error option"
  res_Error :: "error option"
  out :: 'r

record 'v InternalRequest =
  ReqType :: requestType
  ReqPayload :: "'v option"
  ReqOptions :: "RequestOption list"

record ('m, 'p, 'v) Client =
  Conf :: addr
  base :: "'v base_Client option"
  encryptedAPIKey :: "string option"
  sessionID :: "string option"
  sessionExpiration :: Time
  pushCallbackFunc :: "('v \<Rightarrow> 'v \<times> error option) option"
  requestAdapter :: "('m, 'p) requestAdapter option"
  rp :: "'v Replier option"
  rv :: "'v Receiver option"

subsection \<open>The world around the client\<close>

text \<open>The calls that leave the file, in the order they are made.\<close>

datatype call =
    Call_Now
  | Call_encryptKey string string
  | Call_adapt requestType
  | Call_Do requestType
  | Call_Receive
  | Call_HandleCallback

record ('m, 'p) world =
  confs :: "addr \<rightharpoonup> ('m, 'p) Config"
  calls :: "call list"

text \<open>What is written to an \<^verbatim>\<open>http.ResponseWriter\<close>: the calls that take it, in order.\<close>

datatype 'v writer_call =
    http_Error string int
  | Reply "'v Replier" "'v base_Response"

record ('m, 'p, 'v) env =
  Now :: "call list \<Rightarrow> Time"
  Platform_String :: "'p \<Rightarrow> string"
  Market_URLContextValue :: "'m \<Rightarrow> string"
  base_NewClient :: "'v base_Client"
  encryptKey :: "call list \<Rightarrow> string \<Rightarrow> string \<Rightarrow> error + string"
  adapt :: "('m, 'p) requestAdapter option \<Rightarrow> requestType \<Rightarrow> 'v \<Rightarrow> error + 'v"
  Do_SessionResponse ::
    "'v base_Client \<Rightarrow> call list \<Rightarrow> 'v InternalRequest \<Rightarrow> SessionResponse DoResult"
  Do_PushAsyncResponse ::
    "'v base_Client \<Rightarrow> call list \<Rightarrow> 'v InternalRequest \<Rightarrow> 'v PushAsyncResponse DoResult"
  Do_DisburseResponse ::
    "'v base_Client \<Rightarrow> call list \<Rightarrow> 'v InternalRequest \<Rightarrow> 'v DisburseResponse DoResult"
  zero_PushAsyncFields :: 'v
  zero_DisburseFields :: 'v
  Receive :: "'v Receiver \<Rightarrow> call list \<Rightarrow> 'v \<Rightarrow> error + 'v"

definition called :: "call \<Rightarrow> ('m, 'p) world \<Rightarrow> ('m, 'p) world" where
  "called k w = w\<lparr>calls := calls w @ [k]\<rparr>"

definition time_Now :: "('m, 'p, 'v) env \<Rightarrow> ('m, 'p) world \<Rightarrow> Time \<times> ('m, 'p) world" where
  "time_Now env w = (Now env (calls w), called Call_Now w)"

text \<open>The zero values \<^verbatim>\<open>SessionResponse{}\<close>, \<^verbatim>\<open>PushAsyncResponse{}\<close>, \<^verbatim>\<open>DisburseResponse{}\<close>.\<close>

definition SessionResponse_zero :: SessionResponse where
  "SessionResponse_zero = \<lparr>OutputErr = '''', ID = ''''\<rparr>"

definition PushAsyncResponse_zero :: "('m, 'p, 'v) env \<Rightarrow> 'v PushAsyncResponse" where
  "PushAsyncResponse_zero env = \<lparr>OutputErr = '''', PushAsyncFields = zero_PushAsyncFields env\<rparr>"

definition DisburseResponse_zero :: "('m, 'p, 'v) env \<Rightarrow> 'v DisburseResponse" where
  "DisburseResponse_zero env = \<lparr>OutputErr = '''', DisburseFields = zero_DisburseFields env\<rparr>"

text \<open>The header map that the three operations build, with the bearer token.\<close>

definition headers :: "string \<Rightarrow> string \<rightharpoonup> string" where
  "headers token =
     [''Content-Type'' \<mapsto> ''application/json'',
      ''Origin'' \<mapsto> ''*'',
      ''Authorization'' \<mapsto> ''Bearer '' @ token]"

subsection \<open>Helpers of the client that live outside the file\<close>

text \<open>
  Modelled from the spec: \<^verbatim>\<open>makeInternalRequest\<close>, the method that builds the request for
  the executor, is not in the file. The request is kept as what the file passes to it:
  the operation kind, the payload (\<^verbatim>\<open>nil\<close> for a session request) and the options.
\<close>

definition makeInternalRequest ::
  "('m, 'p, 'v) Client \<Rightarrow> requestType \<Rightarrow> 'v option \<Rightarrow> RequestOption list \<Rightarrow> 'v InternalRequest"
where
  "makeInternalRequest c t payload opts =
     \<lparr>ReqType = t, ReqPayload = payload, ReqOptions = opts\<rparr>"

text \<open>
  Modelled from the spec: \<^verbatim>\<open>getEncryptionKey\<close> is not in the file. Section 4.1, step 1:
  encrypt the configured API key with the configured public key to obtain the
  bootstrap token; an encryption failure is the error.
\<close>

definition getEncryptionKey ::
  "('m, 'p, 'v) env \<Rightarrow> ('m, 'p, 'v) Client \<Rightarrow> ('m, 'p) world \<Rightarrow>
     ((string \<times> error option) \<times> ('m, 'p) world) outcome"
where
  "getEncryptionKey env c w =
     (case confs w (Conf c) of
        None \<Rightarrow> Panicked nil_dereference
      | Some cf \<Rightarrow>
          let w1 = called (Call_encryptKey (APIKey cf) (PublicKey cf)) w in
          (case encryptKey env (calls w) (APIKey cf) (PublicKey cf) of
             Inl e \<Rightarrow> Returned (('''', Some e), w1)
           | Inr token \<Rightarrow> Returned ((token, None), w1)))"

subsection \<open>QueryTx\<close>

definition QueryTx ::
  "('m, 'p, 'v) Client \<Rightarrow> 'v \<Rightarrow> ('m, 'p) world \<Rightarrow>
     (('r \<times> error option) \<times> ('m, 'p, 'v) Client \<times> ('m, 'p) world) outcome"
where
  "QueryTx c req w = Panicked ''implement me''"

subsection \<open>NewClient\<close>

text \<open>
  A \<^verbatim>\<open>ClientOption\<close> is called with the pointer to the client: it may change the client
  and whatever the client points to. The type is declared outside the file.
\<close>

type_synonym ('m, 'p, 'v) ClientOption =
  "(addr \<rightharpoonup> ('m, 'p) Config) \<times> ('m, 'p, 'v) Client \<Rightarrow>
   (addr \<rightharpoonup> ('m, 'p) Config) \<times> ('m, 'p, 'v) Client"

definition NewClient ::
  "('m, 'p, 'v) env \<Rightarrow> addr \<Rightarrow> ('v \<Rightarrow> 'v \<times> error option) option \<Rightarrow>
     ('m, 'p, 'v) ClientOption list \<Rightarrow> ('m, 'p) world \<Rightarrow>
     (('m, 'p, 'v) Client \<times> ('m, 'p) world) outcome"
where
  "NewClient env conf callbacker opts w =
     (case confs w conf of
        None \<Rightarrow> Panicked nil_dereference
      | Some cf0 \<Rightarrow>
          let basePath = BasePath cf0;
              (now, w1) = time_Now env w;
              client = \<lparr>Conf = conf,
                        base = Some (base_NewClient env),
                        encryptedAPIKey = Some '''',
                        sessionID = Some '''',
                        sessionExpiration = now,
                        pushCallbackFunc = callbacker,
                        requestAdapter = None,
                        rp = None,
                        rv = None\<rparr>;
              (h, client) = fold (\<lambda>opt st. opt st) opts (confs w1, client)
          in
          (case h (Conf client) of
             None \<Rightarrow> Panicked nil_dereference
           | Some cf \<Rightarrow>
               let platform = Platform cf;
                   market = Market cf;
                   platformStr = Platform_String env platform;
                   marketStr = Market_URLContextValue env market;
                   p = ''https://'' @ basePath @ ''/'' @ platformStr @ ''/ipg/v2/'' @ marketStr @ ''/'';
                   h = h(Conf client \<mapsto> cf\<lparr>BasePath := p\<rparr>)
               in
               (case h conf of
                  None \<Rightarrow> Panicked nil_dereference
                | Some cf1 \<Rightarrow>
                    let client = client\<lparr>requestAdapter :=
                                   Some \<lparr>platform = platform,
                                         market = market,
                                         serviceProviderCode = ServiceProvideCode cf1\<rparr>\<rparr>
                    in
                    (case base client of
                       None \<Rightarrow> Panicked nil_dereference
                     | Some b \<Rightarrow>
                         Returned
                           (client\<lparr>rp := Some (NewReplier (Logger b) (DebugMode b)),
                                   rv := Some (NewReceiver (Logger b) (DebugMode b))\<rparr>,
                            w1\<lparr>confs := h\<rparr>)))))"

subsection \<open>SessionID\<close>

definition SessionID ::
  "('m, 'p, 'v) env \<Rightarrow> ('m, 'p, 'v) Client \<Rightarrow> ('m, 'p) world \<Rightarrow>
     ((SessionResponse \<times> error option) \<times> ('m, 'p, 'v) Client \<times> ('m, 'p) world) outcome"
where
  "SessionID env c w =
     (case getEncryptionKey env c w of
        Panicked m \<Rightarrow> Panicked m
      | Returned ((token, Some e), w1) \<Rightarrow> Returned ((SessionResponse_zero, Some e), c, w1)
      | Returned ((token, None), w1) \<Rightarrow>
          let opts = [WithRequestHeaders (headers token)];
              re = makeInternalRequest c sessionID_type None opts
          in
          (case base c of
             None \<Rightarrow> Panicked nil_dereference
           | Some b \<Rightarrow>
               let r = Do_SessionResponse env b (calls w1) re;
                   w2 = called (Call_Do sessionID_type) w1;
                   response = out r
               in
               (case err r of
                  Some e \<Rightarrow> Returned ((response, Some e), c, w2)
                | None \<Rightarrow>
                    (case res_Error r of
                       Some resErr \<Rightarrow>
                         Returned
                           ((SessionResponse_zero,
                             Some (wrapError (''could not fetch session id: '' @ Error resErr) resErr)),
                            c, w2)
                     | None \<Rightarrow>
                         if OutputErr response \<noteq> '''' then
                           Returned
                             ((response,
                               Some (errorString (''could not fetch session id: '' @ OutputErr response))),
                              c, w2)
                         else
                           (case confs w2 (Conf c) of
                              None \<Rightarrow> Panicked nil_dereference
                            | Some cf \<Rightarrow>
                                let sessLifeTimeMin = SessionLifetimeMinutes cf;
                                    sessID = ID response;
                                    up = sessLifeTimeMin * Minute;
                                    (now, w3) = time_Now env w2;
                                    expiration = Time_Add now up
                                in
                                Returned
                                  ((response, None),
                                   c\<lparr>sessionExpiration := expiration, sessionID := Some sessID\<rparr>,
                                   w3))))))"

subsection \<open>PushAsync and Disburse\<close>

text \<open>
  Modelled from the spec: \<^verbatim>\<open>checkSessionID\<close> is not in the file. Section 4.1,
  \<^verbatim>\<open>ensureSession\<close>: return the cached session id at once if \<^verbatim>\<open>now < expiresAt\<close>; otherwise
  acquire a session (\<^verbatim>\<open>SessionID\<close>, which stores it) and return the new id. Section 2:
  an absent session is refreshed like an expired one. Section 7: a failed refresh
  aborts the operation, with no fallback to the stale session.
\<close>

definition checkSessionID ::
  "('m, 'p, 'v) env \<Rightarrow> ('m, 'p, 'v) Client \<Rightarrow> ('m, 'p) world \<Rightarrow>
     ((string \<times> error option) \<times> ('m, 'p, 'v) Client \<times> ('m, 'p) world) outcome"
where
  "checkSessionID env c w =
     (let (now, w1) = time_Now env w in
      (case (if now < sessionExpiration c then sessionID c else None) of
         Some sess \<Rightarrow> Returned ((sess, None), c, w1)
       | None \<Rightarrow>
           (case SessionID env c w1 of
              Panicked m \<Rightarrow> Panicked m
            | Returned ((response, Some e), c1, w2) \<Rightarrow> Returned (('''', Some e), c1, w2)
            | Returned ((response, None), c1, w2) \<Rightarrow> Returned ((ID response, None), c1, w2))))"

definition PushAsync ::
  "('m, 'p, 'v) env \<Rightarrow> ('m, 'p, 'v) Client \<Rightarrow> 'v \<Rightarrow> ('m, 'p) world \<Rightarrow>
     (('v PushAsyncResponse \<times> error option) \<times> ('m, 'p, 'v) Client \<times> ('m, 'p) world) outcome"
where
  "PushAsync env c request w =
     (case checkSessionID env c w of
        Panicked m \<Rightarrow> Panicked m
      | Returned ((sess, Some e), c1, w1) \<Rightarrow> Returned ((PushAsyncResponse_zero env, Some e), c1, w1)
      | Returned ((sess, None), c1, w1) \<Rightarrow>
          (case confs w1 (Conf c1) of
             None \<Rightarrow> Panicked nil_dereference
           | Some cf \<Rightarrow>
               let w2 = called (Call_encryptKey sess (PublicKey cf)) w1 in
               (case encryptKey env (calls w1) sess (PublicKey cf) of
                  Inl e \<Rightarrow> Returned ((PushAsyncResponse_zero env, Some e), c1, w2)
                | Inr token \<Rightarrow>
                    let w3 = called (Call_adapt pushPay) w2 in
                    (case adapt env (requestAdapter c1) pushPay request of
                       Inl e \<Rightarrow> Returned ((PushAsyncResponse_zero env, Some e), c1, w3)
                     | Inr payload \<Rightarrow>
                         let opts = [WithRequestHeaders (headers token)];
                             re = makeInternalRequest c1 pushPay (Some payload) opts
                         in
                         (case base c1 of
                            None \<Rightarrow> Panicked nil_dereference
                          | Some b \<Rightarrow>
                              let r = Do_PushAsyncResponse env b (calls w3) re;
                                  w4 = called (Call_Do pushPay) w3;
                                  response = out r
                              in
                              (case err r of
                                 Some e \<Rightarrow> Returned ((response, Some e), c1, w4)
                               | None \<Rightarrow>
                                   if OutputErr response \<noteq> '''' then
                                     Returned
                                       ((response,
                                         Some (errorString
                                           (''could not perform c2b single stage request: ''
                                              @ OutputErr response))),
                                        c1, w4)
                                   else Returned ((response, None), c1, w4)))))))"

definition Disburse ::
  "('m, 'p, 'v) env \<Rightarrow> ('m, 'p, 'v) Client \<Rightarrow> 'v \<Rightarrow> ('m, 'p) world \<Rightarrow>
     (('v DisburseResponse \<times> error option) \<times> ('m, 'p, 'v) Client \<times> ('m, 'p) world) outcome"
where
  "Disburse env c request w =
     (case checkSessionID env c w of
        Panicked m \<Rightarrow> Panicked m
      | Returned ((sess, Some e), c1, w1) \<Rightarrow> Returned ((DisburseResponse_zero env, Some e), c1, w1)
      | Returned ((sess, None), c1, w1) \<Rightarrow>
          (case confs w1 (Conf c1) of
             None \<Rightarrow> Panicked nil_dereference
           | Some cf \<Rightarrow>
               let w2 = called (Call_encryptKey sess (PublicKey cf)) w1 in
               (case encryptKey env (calls w1) sess (PublicKey cf) of
                  Inl e \<Rightarrow> Returned ((DisburseResponse_zero env, Some e), c1, w2)
                | Inr token \<Rightarrow>
                    let w3 = called (Call_adapt disburse) w2 in
                    (case adapt env (requestAdapter c1) disburse request of
                       Inl e \<Rightarrow> Returned ((DisburseResponse_zero env, Some e), c1, w3)
                     | Inr payload \<Rightarrow>
                         let opts = [WithRequestHeaders (headers token)];
                             re = makeInternalRequest c1 disburse (Some payload) opts
                         in
                         (case base c1 of
                            None \<Rightarrow> Panicked nil_dereference
                          | Some b \<Rightarrow>
                              let r = Do_DisburseResponse env b (calls w3) re;
                                  w4 = called (Call_Do disburse) w3;
                                  response = out r
                              in
                              (case err r of
                                 Some e \<Rightarrow> Returned ((response, Some e), c1, w4)
                               | None \<Rightarrow>
                                   if OutputErr response \<noteq> '''' then
                                     Returned
                                       ((response,
                                         Some (errorString
                                           (''could not perform disburse request: ''
                                              @ OutputErr response))),
                                        c1, w4)
                                   else Returned ((response, None), c1, w4)))))))"

subsection \<open>CallbackServeHTTP\<close>

text \<open>
  The writer is the list of calls made on it so far; the function returns it extended.
  \<^verbatim>\<open>http.StatusInternalServerError\<close> is 500.
\<close>

definition CallbackServeHTTP ::
  "('m, 'p, 'v) env \<Rightarrow> ('m, 'p, 'v) Client \<Rightarrow> 'v writer_call list \<Rightarrow> 'v \<Rightarrow> ('m, 'p) world \<Rightarrow>
     ('v writer_call list \<times> ('m, 'p) world) outcome"
where
  "CallbackServeHTTP env c writer request w =
     (case rv c of
        None \<Rightarrow> Panicked nil_dereference
      | Some receiver \<Rightarrow>
          let w1 = called Call_Receive w in
          (case Receive env receiver (calls w) request of
             Inl e \<Rightarrow> Returned (writer @ [http_Error (Error e) 500], w1)
           | Inr reqBody \<Rightarrow>
               (case pushCallbackFunc c of
                  None \<Rightarrow> Panicked nil_dereference
                | Some handler \<Rightarrow>
                    let w2 = called Call_HandleCallback w1 in
                    (case handler reqBody of
                       (resp, Some e) \<Rightarrow> Returned (writer @ [http_Error (Error e) 500], w2)
                     | (resp, None) \<Rightarrow>
                         let hs = WithMoreResponseHeaders [''Content-Type'' \<mapsto> ''application/json''];
                             response = NewResponse 200 resp [hs]
                         in
                         (case rp c of
                            None \<Rightarrow> Panicked nil_dereference
                          | Some replier \<Rightarrow> Returned (writer @ [Reply replier response], w2))))))"

subsection \<open>Sequences of operations\<close>

text \<open>
  A caller's use of one client: any list of operations, run one after the other on
  the client and the world that the one before left. A panic ends the run.
\<close>

datatype 'v client_op =
    Op_SessionID
  | Op_PushAsync 'v
  | Op_Disburse 'v
  | Op_CallbackServeHTTP "'v writer_call list" 'v

definition run_op ::
  "('m, 'p, 'v) env \<Rightarrow> 'v client_op \<Rightarrow> ('m, 'p, 'v) Client \<Rightarrow> ('m, 'p) world \<Rightarrow>
     (('m, 'p, 'v) Client \<times> ('m, 'p) world) outcome"
where
  "run_op env x c w =
     (case x of
        Op_SessionID \<Rightarrow>
          (case SessionID env c w of Panicked m \<Rightarrow> Panicked m | Returned (r, c1, w1) \<Rightarrow> Returned (c1, w1))
      | Op_PushAsync request \<Rightarrow>
          (case PushAsync env c request w of
             Panicked m \<Rightarrow> Panicked m | Returned (r, c1, w1) \<Rightarrow> Returned (c1, w1))
      | Op_Disburse request \<Rightarrow>
          (case Disburse env c request w of
             Panicked m \<Rightarrow> Panicked m | Returned (r, c1, w1) \<Rightarrow> Returned (c1, w1))
      | Op_CallbackServeHTTP writer request \<Rightarrow>
          (case CallbackServeHTTP env c writer request w of
             Panicked m \<Rightarrow> Panicked m | Returned (writer1, w1) \<Rightarrow> Returned (c, w1)))"

fun run_ops ::
  "('m, 'p, 'v) env \<Rightarrow> 'v client_op list \<Rightarrow> ('m, 'p, 'v) Client \<Rightarrow> ('m, 'p) world \<Rightarrow>
     (('m, 'p, 'v) Client \<times> ('m, 'p) world) outcome"
where
  "run_ops env [] c w = Returned (c, w)"
| "run_ops env (x # xs) c w =
     (case run_op env x c w of
        Panicked m \<Rightarrow> Panicked m
      | Returned (c1, w1) \<Rightarrow> run_ops env xs c1 w1)"

text \<open>
  What a theorem may ask of a \<^verbatim>\<open>ClientOption\<close>: that it leaves the configuration alone
  (the objects in the store and the client's pointer to its own), or that it leaves
  the cached session alone.
\<close>

definition keeps_Conf :: "('m, 'p, 'v) ClientOption \<Rightarrow> bool" where
  "keeps_Conf opt = (\<forall>h c. fst (opt (h, c)) = h \<and> Conf (snd (opt (h, c))) = Conf c)"

definition keeps_session :: "('m, 'p, 'v) ClientOption \<Rightarrow> bool" where
  "keeps_session opt =
     (\<forall>h c. sessionID (snd (opt (h, c))) = sessionID c
          \<and> sessionExpiration (snd (opt (h, c))) = sessionExpiration c)"

subsection \<open>A stub gateway\<close>

text \<open>
  A concrete environment, configuration, client and world, on which the theorems
  below are run: markets and platforms are numbered, passed-along values are strings.
  The stub clock ticks once per call, the stub encryption fails on an empty public key,
  the stub adapter refuses the query kind, the stub gateway answers every request with
  success and the session id \<open>S1\<close>.
\<close>

definition ex_env :: "(nat, nat, string) env" where
  "ex_env =
     \<lparr>Now = (\<lambda>cs. 1000 + int (length cs)),
      Platform_String = (\<lambda>p. if p = 0 then ''sandbox'' else ''openapi''),
      Market_URLContextValue = (\<lambda>m. if m = 0 then ''vodacomTZN'' else ''vodafoneGHA''),
      base_NewClient = \<lparr>Logger = ''stderr'', DebugMode = False\<rparr>,
      encryptKey = (\<lambda>cs plain key.
         if key = '''' then Inl (errorString ''bad public key'') else Inr (''enc:'' @ plain)),
      adapt = (\<lambda>ra t request.
         if t = query then Inl (errorString ''unsupported operation'') else Inr (''wire:'' @ request)),
      Do_SessionResponse = (\<lambda>b cs re.
         \<lparr>err = None, res_Error = None, out = \<lparr>OutputErr = '''', ID = ''S1''\<rparr>\<rparr>),
      Do_PushAsyncResponse = (\<lambda>b cs re.
         \<lparr>err = None, res_Error = None, out = \<lparr>OutputErr = '''', PushAsyncFields = ''accepted''\<rparr>\<rparr>),
      Do_DisburseResponse = (\<lambda>b cs re.
         \<lparr>err = None, res_Error = None, out = \<lparr>OutputErr = '''', DisburseFields = ''paid''\<rparr>\<rparr>),
      zero_PushAsyncFields = '''',
      zero_DisburseFields = '''',
      Receive = (\<lambda>r cs request.
         if request = '''' then Inl (errorString ''unexpected end of JSON input'') else Inr request)\<rparr>"

definition ex_conf :: "64 word \<Rightarrow> (nat, nat) Config" where
  "ex_conf minutes =
     \<lparr>Endpoints = None,
      Name = ''app'',
      Version = ''1.0'',
      Description = '''',
      BasePath = ''openapi.m-pesa.com'',
      Market = 0,
      Platform = 1,
      APIKey = ''key'',
      PublicKey = ''pub'',
      SessionLifetimeMinutes = minutes,
      ServiceProvideCode = ''000000'',
      TrustedSources = []\<rparr>"

definition ex_world :: "64 word \<Rightarrow> (nat, nat) world" where
  "ex_world minutes = \<lparr>confs = [0 \<mapsto> ex_conf minutes], calls = []\<rparr>"

definition ex_handler :: "string \<Rightarrow> string \<times> error option" where
  "ex_handler body = (if body = ''boom'' then ('''', Some (errorString ''handler failed'')) else (''ok:'' @ body, None))"

text \<open>A client with a cached session \<open>OLD\<close> that expired at instant 42.\<close>

definition ex_client :: "(nat, nat, string) Client" where
  "ex_client =
     \<lparr>Conf = 0,
      base = Some \<lparr>Logger = ''stderr'', DebugMode = False\<rparr>,
      encryptedAPIKey = Some '''',
      sessionID = Some ''OLD'',
      sessionExpiration = 42,
      pushCallbackFunc = Some ex_handler,
      requestAdapter = Some \<lparr>platform = 1, market = 0, serviceProviderCode = ''000000''\<rparr>,
      rp = Some (NewReplier ''stderr'' False),
      rv = Some (NewReceiver ''stderr'' False)\<rparr>"

text \<open>An option in the manner of a debug switch: it changes the base client only.\<close>

definition ex_option :: "(nat, nat, string) ClientOption" where
  "ex_option = (\<lambda>(h, c). (h, c\<lparr>base := map_option (\<lambda>b. b\<lparr>DebugMode := True\<rparr>) (base c)\<rparr>))"

text \<open>The client that \<^verbatim>\<open>NewClient\<close> builds on the stub with that option, and the store it leaves.\<close>

definition ex_fresh_client :: "(nat, nat, string) Client" where
  "ex_fresh_client =
     \<lparr>Conf = 0,
      base = Some \<lparr>Logger = ''stderr'', DebugMode = True\<rparr>,
      encryptedAPIKey = Some '''',
      sessionID = Some '''',
      sessionExpiration = 1000,
      pushCallbackFunc = Some ex_handler,
      requestAdapter = Some \<lparr>platform = 1, market = 0, serviceProviderCode = ''000000''\<rparr>,
      rp = Some (NewReplier ''stderr'' True),
      rv = Some (NewReceiver ''stderr'' True)\<rparr>"

definition ex_fresh_world :: "(nat, nat) world" where
  "ex_fresh_world =
     \<lparr>confs = [0 \<mapsto> (ex_conf 5)\<lparr>BasePath := ''https://openapi.m-pesa.com/openapi/ipg/v2/vodacomTZN/''\<rparr>],
      calls = [Call_Now]\<rparr>"

text \<open>An option that hands the client a session obtained elsewhere, valid until instant 5000.\<close>

definition ex_session_option :: "(nat, nat, string) ClientOption" where
  "ex_session_option = (\<lambda>(h, c). (h, c\<lparr>sessionID := Some ''PRE'', sessionExpiration := 5000\<rparr>))"

section \<open>Properties\<close>

lemmas ex_defs = ex_env_def ex_client_def ex_world_def ex_conf_def ex_handler_def
  ex_option_def ex_fresh_client_def ex_fresh_world_def

subsection \<open>SessionID\<close>

text \<open>
  The lifetime in minutes becomes a duration by an \<^verbatim>\<open>int64\<close> multiplication with
  \<^verbatim>\<open>time.Minute\<close>. It is the exact number of nanoseconds as long as that number fits.
\<close>

lemma minutes_no_wrap:
  fixes m :: "64 word"
  assumes "- 153722867 \<le> sint m" and "sint m \<le> 153722867"
  shows "sint (m * Minute) = sint m * 60000000000"
proof -
  have "sint (m * Minute) = signed_take_bit 63 (sint m * sint (60000000000 :: 64 word))"
    by (simp add: Minute_def sint_word_ariths)
  also have "sint (60000000000 :: 64 word) = 60000000000"
    by simp
  also have "signed_take_bit 63 (sint m * 60000000000) = sint m * 60000000000"
    using assms by (intro signed_take_bit_int_eq_self) simp_all
  finally show ?thesis .
qed

text \<open>
  C1 (as the code has it). When the key is encrypted, the executor reports no error,
  the result carries no error object and \<^verbatim>\<open>OutputErr\<close> is empty, \<^verbatim>\<open>SessionID\<close> returns the
  parsed response unchanged with no error and replaces the cached session, whatever
  the lifetime: the new id is the response's \<^verbatim>\<open>ID\<close>, and the new expiration is the instant
  read from the clock after the call, moved by the \<^verbatim>\<open>int64\<close> product of
  \<^verbatim>\<open>SessionLifetimeMinutes\<close> and \<^verbatim>\<open>time.Minute\<close>. That expiration is the instant plus
  \<^verbatim>\<open>SessionLifetimeMinutes\<close> minutes whenever that many minutes fit an \<^verbatim>\<open>int64\<close> count of
  nanoseconds (at most 153722867 minutes either way).
\<close>

theorem SessionID_stores_session:
  assumes "confs w (Conf c) = Some cf"
    and "encryptKey env (calls w) (APIKey cf) (PublicKey cf) = Inr token"
    and "base c = Some b"
    and "Do_SessionResponse env b (calls w @ [Call_encryptKey (APIKey cf) (PublicKey cf)])
           (makeInternalRequest c sessionID_type None [WithRequestHeaders (headers token)]) = r"
    and "err r = None" and "res_Error r = None" and "OutputErr (out r) = ''''"
  shows "SessionID env c w =
           Returned
             ((out r, None),
              c\<lparr>sessionExpiration :=
                   Time_Add
                     (Now env (calls w @ [Call_encryptKey (APIKey cf) (PublicKey cf), Call_Do sessionID_type]))
                     (SessionLifetimeMinutes cf * Minute),
                 sessionID := Some (ID (out r))\<rparr>,
              w\<lparr>calls := calls w @
                   [Call_encryptKey (APIKey cf) (PublicKey cf), Call_Do sessionID_type, Call_Now]\<rparr>)
       \<and> (- 153722867 \<le> sint (SessionLifetimeMinutes cf)
            \<and> sint (SessionLifetimeMinutes cf) \<le> 153722867 \<longrightarrow>
          Time_Add
            (Now env (calls w @ [Call_encryptKey (APIKey cf) (PublicKey cf), Call_Do sessionID_type]))
            (SessionLifetimeMinutes cf * Minute)
          = Now env (calls w @ [Call_encryptKey (APIKey cf) (PublicKey cf), Call_Do sessionID_type])
              + sint (SessionLifetimeMinutes cf) * 60000000000)"
proof (intro conjI impI)
  show "SessionID env c w =
           Returned
             ((out r, None),
              c\<lparr>sessionExpiration :=
                   Time_Add
                     (Now env (calls w @ [Call_encryptKey (APIKey cf) (PublicKey cf), Call_Do sessionID_type]))
                     (SessionLifetimeMinutes cf * Minute),
                 sessionID := Some (ID (out r))\<rparr>,
              w\<lparr>calls := calls w @
                   [Call_encryptKey (APIKey cf) (PublicKey cf), Call_Do sessionID_type, Call_Now]\<rparr>)"
    using assms
    by (simp add: SessionID_def getEncryptionKey_def called_def time_Now_def Let_def)
next
  assume "- 153722867 \<le> sint (SessionLifetimeMinutes cf)
            \<and> sint (SessionLifetimeMinutes cf) \<le> 153722867"
  then have "sint (SessionLifetimeMinutes cf * Minute) = sint (SessionLifetimeMinutes cf) * 60000000000"
    by (simp add: minutes_no_wrap)
  then show "Time_Add
            (Now env (calls w @ [Call_encryptKey (APIKey cf) (PublicKey cf), Call_Do sessionID_type]))
            (SessionLifetimeMinutes cf * Minute)
          = Now env (calls w @ [Call_encryptKey (APIKey cf) (PublicKey cf), Call_Do sessionID_type])
              + sint (SessionLifetimeMinutes cf) * 60000000000"
    by (simp add: Time_Add_def)
qed

text \<open>Scenario A: the stub gateway answers \<open>S1\<close>, the lifetime is 5 minutes.\<close>

theorem SessionID_stores_session_witness:
  "SessionID ex_env ex_client (ex_world 5) =
     Returned
       ((\<lparr>OutputErr = '''', ID = ''S1''\<rparr>, None),
        ex_client\<lparr>sessionExpiration := 1002 + 5 * 60000000000, sessionID := Some ''S1''\<rparr>,
        (ex_world 5)\<lparr>calls := [Call_encryptKey ''key'' ''pub'', Call_Do sessionID_type, Call_Now]\<rparr>)"
proof -
  have cf: "confs (ex_world 5) (Conf ex_client) = Some (ex_conf 5)"
    and token: "encryptKey ex_env (calls (ex_world 5)) (APIKey (ex_conf 5)) (PublicKey (ex_conf 5))
                  = Inr ''enc:key''"
    and b: "base ex_client = Some \<lparr>Logger = ''stderr'', DebugMode = False\<rparr>"
    and r: "Do_SessionResponse ex_env \<lparr>Logger = ''stderr'', DebugMode = False\<rparr>
              (calls (ex_world 5) @ [Call_encryptKey (APIKey (ex_conf 5)) (PublicKey (ex_conf 5))])
              (makeInternalRequest ex_client sessionID_type None [WithRequestHeaders (headers ''enc:key'')])
            = \<lparr>err = None, res_Error = None, out = \<lparr>OutputErr = '''', ID = ''S1''\<rparr>\<rparr>"
    by (simp_all add: ex_defs)
  have range: "- 153722867 \<le> sint (SessionLifetimeMinutes (ex_conf 5))
                 \<and> sint (SessionLifetimeMinutes (ex_conf 5)) \<le> 153722867"
    by (simp add: ex_conf_def)
  from SessionID_stores_session [OF cf token b r] range
  have "SessionID ex_env ex_client (ex_world 5) =
           Returned
             ((\<lparr>OutputErr = '''', ID = ''S1''\<rparr>, None),
              ex_client\<lparr>sessionExpiration :=
                   Now ex_env (calls (ex_world 5) @
                     [Call_encryptKey (APIKey (ex_conf 5)) (PublicKey (ex_conf 5)), Call_Do sessionID_type])
                     + sint (SessionLifetimeMinutes (ex_conf 5)) * 60000000000,
                 sessionID := Some ''S1''\<rparr>,
              (ex_world 5)\<lparr>calls := calls (ex_world 5) @
                   [Call_encryptKey (APIKey (ex_conf 5)) (PublicKey (ex_conf 5)), Call_Do sessionID_type,
                    Call_Now]\<rparr>)"
    by simp
  then show ?thesis
    by (simp add: ex_env_def ex_conf_def ex_world_def)
qed

text \<open>
  C1 as written fails for a lifetime of 153722868 minutes: the multiplication wraps,
  and the session stored after the clock read 1002 expires about 292 years before
  that instant, where the claim asks for 1002 plus 153722868 minutes.
\<close>

theorem SessionID_expiration_counterexample:
  "SessionID ex_env ex_client (ex_world 153722868) =
     Returned
       ((\<lparr>OutputErr = '''', ID = ''S1''\<rparr>, None),
        ex_client\<lparr>sessionExpiration := - 9223371993709550614, sessionID := Some ''S1''\<rparr>,
        (ex_world 153722868)\<lparr>calls := [Call_encryptKey ''key'' ''pub'', Call_Do sessionID_type, Call_Now]\<rparr>)
   \<and> Now ex_env [Call_encryptKey ''key'' ''pub'', Call_Do sessionID_type]
         + sint (153722868 :: 64 word) * 60000000000 = 9223372080000001002"
  by (simp add: ex_defs SessionID_def getEncryptionKey_def called_def time_Now_def Let_def
        Time_Add_def Minute_def)

text \<open>
  C2. Whenever \<^verbatim>\<open>SessionID\<close> returns an error, whichever step it comes from, the cached
  session id and the cached expiration are what they were before the call; indeed
  the whole client is.
\<close>

theorem SessionID_error_keeps_session:
  assumes "SessionID env c w = Returned ((response, Some e), c', w')"
  shows "sessionID c' = sessionID c \<and> sessionExpiration c' = sessionExpiration c \<and> c' = c"
proof -
  have "c' = c"
    using assms
    by (auto simp: SessionID_def Let_def time_Now_def
          split: outcome.splits option.splits if_splits prod.splits)
  then show ?thesis by simp
qed

text \<open>Scenario B: the stub gateway answers with the business error \<open>invalid key\<close>.\<close>

theorem SessionID_error_keeps_session_witness:
  "SessionID
     (ex_env\<lparr>Do_SessionResponse := (\<lambda>b cs re.
        \<lparr>err = None, res_Error = None, out = \<lparr>OutputErr = ''invalid key'', ID = ''''\<rparr>\<rparr>)\<rparr>)
     ex_client (ex_world 5)
   = Returned
       ((\<lparr>OutputErr = ''invalid key'', ID = ''''\<rparr>,
         Some (errorString ''could not fetch session id: invalid key'')),
        ex_client,
        (ex_world 5)\<lparr>calls := [Call_encryptKey ''key'' ''pub'', Call_Do sessionID_type]\<rparr>)
   \<and> sessionID ex_client = Some ''OLD'' \<and> sessionExpiration ex_client = 42"
proof -
  have run: "SessionID
     (ex_env\<lparr>Do_SessionResponse := (\<lambda>b cs re.
        \<lparr>err = None, res_Error = None, out = \<lparr>OutputErr = ''invalid key'', ID = ''''\<rparr>\<rparr>)\<rparr>)
     ex_client (ex_world 5)
   = Returned
       ((\<lparr>OutputErr = ''invalid key'', ID = ''''\<rparr>,
         Some (errorString ''could not fetch session id: invalid key'')),
        ex_client,
        (ex_world 5)\<lparr>calls := [Call_encryptKey ''key'' ''pub'', Call_Do sessionID_type]\<rparr>)"
    by (simp add: ex_defs SessionID_def getEncryptionKey_def called_def Let_def)
  from SessionID_error_keeps_session [OF run] run show ?thesis
    by (simp add: ex_client_def)
qed

subsection \<open>QueryTx\<close>

text \<open>
  C9. Whatever its arguments, \<^verbatim>\<open>QueryTx\<close> panics with \<open>implement me\<close>; it never returns,
  so never a response and never silently.
\<close>

theorem QueryTx_not_implemented:
  "QueryTx c req w = Panicked ''implement me'' \<and> QueryTx c req w \<noteq> Returned x"
  by (simp add: QueryTx_def)

subsection \<open>PushAsync and Disburse\<close>

text \<open>
  Each of the two operations, stage by stage. \<open>w1\<close> and \<open>c1\<close> are the world and the
  client that the session step leaves; every later call is appended to \<open>calls w1\<close>.
\<close>

lemma PushAsync_session_fails:
  assumes "checkSessionID env c w = Returned ((sess, Some e), c1, w1)"
  shows "PushAsync env c request w = Returned ((PushAsyncResponse_zero env, Some e), c1, w1)"
  using assms by (simp add: PushAsync_def)

lemma PushAsync_encrypt_fails:
  assumes "checkSessionID env c w = Returned ((sess, None), c1, w1)"
    and "confs w1 (Conf c1) = Some cf"
    and "encryptKey env (calls w1) sess (PublicKey cf) = Inl e"
  shows "PushAsync env c request w =
           Returned ((PushAsyncResponse_zero env, Some e), c1,
                     w1\<lparr>calls := calls w1 @ [Call_encryptKey sess (PublicKey cf)]\<rparr>)"
  using assms by (simp add: PushAsync_def called_def)

lemma PushAsync_adapt_fails:
  assumes "checkSessionID env c w = Returned ((sess, None), c1, w1)"
    and "confs w1 (Conf c1) = Some cf"
    and "encryptKey env (calls w1) sess (PublicKey cf) = Inr token"
    and "adapt env (requestAdapter c1) pushPay request = Inl e"
  shows "PushAsync env c request w =
           Returned ((PushAsyncResponse_zero env, Some e), c1,
                     w1\<lparr>calls := calls w1 @ [Call_encryptKey sess (PublicKey cf), Call_adapt pushPay]\<rparr>)"
  using assms by (simp add: PushAsync_def called_def)

lemma PushAsync_executes:
  assumes "checkSessionID env c w = Returned ((sess, None), c1, w1)"
    and "confs w1 (Conf c1) = Some cf"
    and "encryptKey env (calls w1) sess (PublicKey cf) = Inr token"
    and "adapt env (requestAdapter c1) pushPay request = Inr payload"
    and "base c1 = Some b"
    and "Do_PushAsyncResponse env b
           (calls w1 @ [Call_encryptKey sess (PublicKey cf), Call_adapt pushPay])
           (makeInternalRequest c1 pushPay (Some payload) [WithRequestHeaders (headers token)]) = r"
  shows "PushAsync env c request w =
           Returned
             ((out r,
               case err r of
                 Some e \<Rightarrow> Some e
               | None \<Rightarrow>
                   if OutputErr (out r) = '''' then None
                   else Some (errorString
                          (''could not perform c2b single stage request: '' @ OutputErr (out r)))),
              c1,
              w1\<lparr>calls := calls w1 @
                    [Call_encryptKey sess (PublicKey cf), Call_adapt pushPay, Call_Do pushPay]\<rparr>)"
  using assms by (simp add: PushAsync_def called_def Let_def split: option.splits)

lemma Disburse_session_fails:
  assumes "checkSessionID env c w = Returned ((sess, Some e), c1, w1)"
  shows "Disburse env c request w = Returned ((DisburseResponse_zero env, Some e), c1, w1)"
  using assms by (simp add: Disburse_def)

lemma Disburse_encrypt_fails:
  assumes "checkSessionID env c w = Returned ((sess, None), c1, w1)"
    and "confs w1 (Conf c1) = Some cf"
    and "encryptKey env (calls w1) sess (PublicKey cf) = Inl e"
  shows "Disburse env c request w =
           Returned ((DisburseResponse_zero env, Some e), c1,
                     w1\<lparr>calls := calls w1 @ [Call_encryptKey sess (PublicKey cf)]\<rparr>)"
  using assms by (simp add: Disburse_def called_def)

lemma Disburse_adapt_fails:
  assumes "checkSessionID env c w = Returned ((sess, None), c1, w1)"
    and "confs w1 (Conf c1) = Some cf"
    and "encryptKey env (calls w1) sess (PublicKey cf) = Inr token"
    and "adapt env (requestAdapter c1) disburse request = Inl e"
  shows "Disburse env c request w =
           Returned ((DisburseResponse_zero env, Some e), c1,
                     w1\<lparr>calls := calls w1 @ [Call_encryptKey sess (PublicKey cf), Call_adapt disburse]\<rparr>)"
  using assms by (simp add: Disburse_def called_def)

lemma Disburse_executes:
  assumes "checkSessionID env c w = Returned ((sess, None), c1, w1)"
    and "confs w1 (Conf c1) = Some cf"
    and "encryptKey env (calls w1) sess (PublicKey cf) = Inr token"
    and "adapt env (requestAdapter c1) disburse request = Inr payload"
    and "base c1 = Some b"
    and "Do_DisburseResponse env b
           (calls w1 @ [Call_encryptKey sess (PublicKey cf), Call_adapt disburse])
           (makeInternalRequest c1 disburse (Some payload) [WithRequestHeaders (headers token)]) = r"
  shows "Disburse env c request w =
           Returned
             ((out r,
               case err r of
                 Some e \<Rightarrow> Some e
               | None \<Rightarrow>
                   if OutputErr (out r) = '''' then None
                   else Some (errorString
                          (''could not perform disburse request: '' @ OutputErr (out r)))),
              c1,
              w1\<lparr>calls := calls w1 @
                    [Call_encryptKey sess (PublicKey cf), Call_adapt disburse, Call_Do disburse]\<rparr>)"
  using assms by (simp add: Disburse_def called_def Let_def split: option.splits)

text \<open>
  C3. Once the session token was obtained, the token encrypted, the request adapted
  and the executor has returned without error, \<^verbatim>\<open>PushAsync\<close> and \<^verbatim>\<open>Disburse\<close> return the
  parsed response, and they return an error exactly when its \<^verbatim>\<open>OutputErr\<close> is not
  empty; the message of that error ends with \<^verbatim>\<open>OutputErr\<close>.
\<close>

theorem business_error_decides_result:
  assumes "checkSessionID env c w = Returned ((sess, None), c1, w1)"
    and "confs w1 (Conf c1) = Some cf"
    and "encryptKey env (calls w1) sess (PublicKey cf) = Inr token"
    and "base c1 = Some b"
  shows
    "(adapt env (requestAdapter c1) pushPay request = Inr payload
        \<and> Do_PushAsyncResponse env b
             (calls w1 @ [Call_encryptKey sess (PublicKey cf), Call_adapt pushPay])
             (makeInternalRequest c1 pushPay (Some payload) [WithRequestHeaders (headers token)]) = r
        \<and> err r = None
      \<longrightarrow> (\<exists>e w2. PushAsync env c request w = Returned ((out r, e), c1, w2)
             \<and> (e \<noteq> None \<longleftrightarrow> OutputErr (out r) \<noteq> '''')
             \<and> (\<forall>x. e = Some x \<longrightarrow>
                   Error x = ''could not perform c2b single stage request: '' @ OutputErr (out r))))
   \<and> (adapt env (requestAdapter c1) disburse request = Inr payload'
        \<and> Do_DisburseResponse env b
             (calls w1 @ [Call_encryptKey sess (PublicKey cf), Call_adapt disburse])
             (makeInternalRequest c1 disburse (Some payload') [WithRequestHeaders (headers token)]) = r'
        \<and> err r' = None
      \<longrightarrow> (\<exists>e w2. Disburse env c request w = Returned ((out r', e), c1, w2)
             \<and> (e \<noteq> None \<longleftrightarrow> OutputErr (out r') \<noteq> '''')
             \<and> (\<forall>x. e = Some x \<longrightarrow>
                   Error x = ''could not perform disburse request: '' @ OutputErr (out r'))))"
proof (intro conjI impI)
  assume "adapt env (requestAdapter c1) pushPay request = Inr payload
        \<and> Do_PushAsyncResponse env b
             (calls w1 @ [Call_encryptKey sess (PublicKey cf), Call_adapt pushPay])
             (makeInternalRequest c1 pushPay (Some payload) [WithRequestHeaders (headers token)]) = r
        \<and> err r = None"
  then have ad: "adapt env (requestAdapter c1) pushPay request = Inr payload"
    and ex: "Do_PushAsyncResponse env b
             (calls w1 @ [Call_encryptKey sess (PublicKey cf), Call_adapt pushPay])
             (makeInternalRequest c1 pushPay (Some payload) [WithRequestHeaders (headers token)]) = r"
    and ok: "err r = None"
    by simp_all
  from PushAsync_executes [OF assms(1-3) ad assms(4) ex] ok
  show "\<exists>e w2. PushAsync env c request w = Returned ((out r, e), c1, w2)
             \<and> (e \<noteq> None \<longleftrightarrow> OutputErr (out r) \<noteq> '''')
             \<and> (\<forall>x. e = Some x \<longrightarrow>
                   Error x = ''could not perform c2b single stage request: '' @ OutputErr (out r))"
    by simp
next
  assume "adapt env (requestAdapter c1) disburse request = Inr payload'
        \<and> Do_DisburseResponse env b
             (calls w1 @ [Call_encryptKey sess (PublicKey cf), Call_adapt disburse])
             (makeInternalRequest c1 disburse (Some payload') [WithRequestHeaders (headers token)]) = r'
        \<and> err r' = None"
  then have ad: "adapt env (requestAdapter c1) disburse request = Inr payload'"
    and ex: "Do_DisburseResponse env b
             (calls w1 @ [Call_encryptKey sess (PublicKey cf), Call_adapt disburse])
             (makeInternalRequest c1 disburse (Some payload') [WithRequestHeaders (headers token)]) = r'"
    and ok: "err r' = None"
    by simp_all
  from Disburse_executes [OF assms(1-3) ad assms(4) ex] ok
  show "\<exists>e w2. Disburse env c request w = Returned ((out r', e), c1, w2)
             \<and> (e \<noteq> None \<longleftrightarrow> OutputErr (out r') \<noteq> '''')
             \<and> (\<forall>x. e = Some x \<longrightarrow>
                   Error x = ''could not perform disburse request: '' @ OutputErr (out r'))"
    by simp
qed


lemmas run_defs = checkSessionID_def SessionID_def getEncryptionKey_def time_Now_def called_def
  makeInternalRequest_def Time_Add_def Minute_def Let_def


text \<open>
  On the stub gateway: a push answered with the business error \<open>insufficient funds\<close>,
  and a disbursement answered with success.
\<close>

theorem business_error_decides_result_witness:
  "(\<exists>e w2.
      PushAsync
        (ex_env\<lparr>Do_PushAsyncResponse := (\<lambda>b cs re.
           \<lparr>err = None, res_Error = None,
            out = \<lparr>OutputErr = ''insufficient funds'', PushAsyncFields = ''''\<rparr>\<rparr>)\<rparr>)
        ex_client ''r1'' (ex_world 5)
      = Returned
          ((\<lparr>OutputErr = ''insufficient funds'', PushAsyncFields = ''''\<rparr>, e),
           ex_client\<lparr>sessionExpiration := 300000001003, sessionID := Some ''S1''\<rparr>, w2)
      \<and> e \<noteq> None
      \<and> (\<forall>x. e = Some x \<longrightarrow>
            Error x = ''could not perform c2b single stage request: insufficient funds''))
   \<and> (\<exists>e w2.
      Disburse
        (ex_env\<lparr>Do_PushAsyncResponse := (\<lambda>b cs re.
           \<lparr>err = None, res_Error = None,
            out = \<lparr>OutputErr = ''insufficient funds'', PushAsyncFields = ''''\<rparr>\<rparr>)\<rparr>)
        ex_client ''r1'' (ex_world 5)
      = Returned
          ((\<lparr>OutputErr = '''', DisburseFields = ''paid''\<rparr>, e),
           ex_client\<lparr>sessionExpiration := 300000001003, sessionID := Some ''S1''\<rparr>, w2)
      \<and> e = None)"
proof -
  let ?env = "ex_env\<lparr>Do_PushAsyncResponse := (\<lambda>b cs re.
           \<lparr>err = None, res_Error = None,
            out = \<lparr>OutputErr = ''insufficient funds'', PushAsyncFields = ''''\<rparr>\<rparr>)\<rparr>"
  let ?c1 = "ex_client\<lparr>sessionExpiration := 300000001003, sessionID := Some ''S1''\<rparr>"
  let ?w1 = "(ex_world 5)\<lparr>calls :=
               [Call_Now, Call_encryptKey ''key'' ''pub'', Call_Do sessionID_type, Call_Now]\<rparr>"
  have session: "checkSessionID ?env ex_client (ex_world 5) = Returned ((''S1'', None), ?c1, ?w1)"
    by (simp add: run_defs ex_defs)
  have conf: "confs ?w1 (Conf ?c1) = Some (ex_conf 5)"
    by (simp add: ex_defs)
  have token: "encryptKey ?env (calls ?w1) ''S1'' (PublicKey (ex_conf 5)) = Inr ''enc:S1''"
    by (simp add: ex_defs)
  have client: "base ?c1 = Some \<lparr>Logger = ''stderr'', DebugMode = False\<rparr>"
    by (simp add: ex_defs)
  from business_error_decides_result [OF session conf token client,
      of "''r1''" "''wire:r1''"
         "\<lparr>err = None, res_Error = None,
           out = \<lparr>OutputErr = ''insufficient funds'', PushAsyncFields = ''''\<rparr>\<rparr>"
         "''wire:r1''"
         "\<lparr>err = None, res_Error = None, out = \<lparr>OutputErr = '''', DisburseFields = ''paid''\<rparr>\<rparr>"]
  show ?thesis
    by (simp add: ex_defs)
qed


text \<open>
  C4. \<^verbatim>\<open>PushAsync\<close> and \<^verbatim>\<open>Disburse\<close> run the same four steps in the same order: the
  session token from the cache (\<^verbatim>\<open>checkSessionID\<close>), its encryption into the bearer
  token, the adaptation of the request, the call of the executor with that token and
  that payload. A step that fails returns its error, and the calls made are those up
  to that step: after a failed adaptation the executor is not called, and an error of
  the executor is returned as it is, next to the response as the executor left it.
\<close>

theorem four_steps_in_order:
  assumes "checkSessionID env c w = Returned ((sess, serr), c1, w1)"
  shows
    "(\<forall>e. serr = Some e \<longrightarrow>
        PushAsync env c request w = Returned ((PushAsyncResponse_zero env, Some e), c1, w1)
      \<and> Disburse env c request w = Returned ((DisburseResponse_zero env, Some e), c1, w1))
   \<and> (\<forall>cf e. serr = None \<and> confs w1 (Conf c1) = Some cf
          \<and> encryptKey env (calls w1) sess (PublicKey cf) = Inl e \<longrightarrow>
        PushAsync env c request w =
          Returned ((PushAsyncResponse_zero env, Some e), c1,
                    w1\<lparr>calls := calls w1 @ [Call_encryptKey sess (PublicKey cf)]\<rparr>)
      \<and> Disburse env c request w =
          Returned ((DisburseResponse_zero env, Some e), c1,
                    w1\<lparr>calls := calls w1 @ [Call_encryptKey sess (PublicKey cf)]\<rparr>))
   \<and> (\<forall>cf token e. serr = None \<and> confs w1 (Conf c1) = Some cf
          \<and> encryptKey env (calls w1) sess (PublicKey cf) = Inr token
          \<and> adapt env (requestAdapter c1) pushPay request = Inl e \<longrightarrow>
        PushAsync env c request w =
          Returned ((PushAsyncResponse_zero env, Some e), c1,
                    w1\<lparr>calls := calls w1 @ [Call_encryptKey sess (PublicKey cf), Call_adapt pushPay]\<rparr>))
   \<and> (\<forall>cf token e. serr = None \<and> confs w1 (Conf c1) = Some cf
          \<and> encryptKey env (calls w1) sess (PublicKey cf) = Inr token
          \<and> adapt env (requestAdapter c1) disburse request = Inl e \<longrightarrow>
        Disburse env c request w =
          Returned ((DisburseResponse_zero env, Some e), c1,
                    w1\<lparr>calls := calls w1 @ [Call_encryptKey sess (PublicKey cf), Call_adapt disburse]\<rparr>))
   \<and> (\<forall>cf token payload b r. serr = None \<and> confs w1 (Conf c1) = Some cf
          \<and> encryptKey env (calls w1) sess (PublicKey cf) = Inr token
          \<and> adapt env (requestAdapter c1) pushPay request = Inr payload
          \<and> base c1 = Some b
          \<and> Do_PushAsyncResponse env b
               (calls w1 @ [Call_encryptKey sess (PublicKey cf), Call_adapt pushPay])
               (makeInternalRequest c1 pushPay (Some payload) [WithRequestHeaders (headers token)]) = r
          \<longrightarrow>
        PushAsync env c request w =
          Returned
            ((out r,
              case err r of
                Some e \<Rightarrow> Some e
              | None \<Rightarrow>
                  if OutputErr (out r) = '''' then None
                  else Some (errorString
                         (''could not perform c2b single stage request: '' @ OutputErr (out r)))),
             c1,
             w1\<lparr>calls := calls w1 @
                   [Call_encryptKey sess (PublicKey cf), Call_adapt pushPay, Call_Do pushPay]\<rparr>))
   \<and> (\<forall>cf token payload b r. serr = None \<and> confs w1 (Conf c1) = Some cf
          \<and> encryptKey env (calls w1) sess (PublicKey cf) = Inr token
          \<and> adapt env (requestAdapter c1) disburse request = Inr payload
          \<and> base c1 = Some b
          \<and> Do_DisburseResponse env b
               (calls w1 @ [Call_encryptKey sess (PublicKey cf), Call_adapt disburse])
               (makeInternalRequest c1 disburse (Some payload) [WithRequestHeaders (headers token)]) = r
          \<longrightarrow>
        Disburse env c request w =
          Returned
            ((out r,
              case err r of
                Some e \<Rightarrow> Some e
              | None \<Rightarrow>
                  if OutputErr (out r) = '''' then None
                  else Some (errorString
                         (''could not perform disburse request: '' @ OutputErr (out r)))),
             c1,
             w1\<lparr>calls := calls w1 @
                   [Call_encryptKey sess (PublicKey cf), Call_adapt disburse, Call_Do disburse]\<rparr>))"
proof -
  have session: "PushAsync env c request w = Returned ((PushAsyncResponse_zero env, Some e), c1, w1)
      \<and> Disburse env c request w = Returned ((DisburseResponse_zero env, Some e), c1, w1)"
    if "serr = Some e" for e
    using assms that by (simp add: PushAsync_session_fails Disburse_session_fails)
  have encrypt: "PushAsync env c request w =
          Returned ((PushAsyncResponse_zero env, Some e), c1,
                    w1\<lparr>calls := calls w1 @ [Call_encryptKey sess (PublicKey cf)]\<rparr>)
      \<and> Disburse env c request w =
          Returned ((DisburseResponse_zero env, Some e), c1,
                    w1\<lparr>calls := calls w1 @ [Call_encryptKey sess (PublicKey cf)]\<rparr>)"
    if "serr = None" and "confs w1 (Conf c1) = Some cf"
      and "encryptKey env (calls w1) sess (PublicKey cf) = Inl e" for cf e
    using assms that by (simp add: PushAsync_encrypt_fails Disburse_encrypt_fails)
  have adapt_push: "PushAsync env c request w =
          Returned ((PushAsyncResponse_zero env, Some e), c1,
                    w1\<lparr>calls := calls w1 @ [Call_encryptKey sess (PublicKey cf), Call_adapt pushPay]\<rparr>)"
    if "serr = None" and "confs w1 (Conf c1) = Some cf"
      and "encryptKey env (calls w1) sess (PublicKey cf) = Inr token"
      and "adapt env (requestAdapter c1) pushPay request = Inl e" for cf token e
    using assms that by (simp add: PushAsync_adapt_fails)
  have adapt_disburse: "Disburse env c request w =
          Returned ((DisburseResponse_zero env, Some e), c1,
                    w1\<lparr>calls := calls w1 @ [Call_encryptKey sess (PublicKey cf), Call_adapt disburse]\<rparr>)"
    if "serr = None" and "confs w1 (Conf c1) = Some cf"
      and "encryptKey env (calls w1) sess (PublicKey cf) = Inr token"
      and "adapt env (requestAdapter c1) disburse request = Inl e" for cf token e
    using assms that by (simp add: Disburse_adapt_fails)
  have do_push: "PushAsync env c request w =
          Returned
            ((out r,
              case err r of
                Some e \<Rightarrow> Some e
              | None \<Rightarrow>
                  if OutputErr (out r) = '''' then None
                  else Some (errorString
                         (''could not perform c2b single stage request: '' @ OutputErr (out r)))),
             c1,
             w1\<lparr>calls := calls w1 @
                   [Call_encryptKey sess (PublicKey cf), Call_adapt pushPay, Call_Do pushPay]\<rparr>)"
    if "serr = None" and "confs w1 (Conf c1) = Some cf"
      and "encryptKey env (calls w1) sess (PublicKey cf) = Inr token"
      and "adapt env (requestAdapter c1) pushPay request = Inr payload"
      and "base c1 = Some b"
      and "Do_PushAsyncResponse env b
               (calls w1 @ [Call_encryptKey sess (PublicKey cf), Call_adapt pushPay])
               (makeInternalRequest c1 pushPay (Some payload) [WithRequestHeaders (headers token)]) = r"
    for cf token payload b r
    using assms that(1) by (simp add: PushAsync_executes [OF _ that(2-6)])
  have do_disburse: "Disburse env c request w =
          Returned
            ((out r,
              case err r of
                Some e \<Rightarrow> Some e
              | None \<Rightarrow>
                  if OutputErr (out r) = '''' then None
                  else Some (errorString
                         (''could not perform disburse request: '' @ OutputErr (out r)))),
             c1,
             w1\<lparr>calls := calls w1 @
                   [Call_encryptKey sess (PublicKey cf), Call_adapt disburse, Call_Do disburse]\<rparr>)"
    if "serr = None" and "confs w1 (Conf c1) = Some cf"
      and "encryptKey env (calls w1) sess (PublicKey cf) = Inr token"
      and "adapt env (requestAdapter c1) disburse request = Inr payload"
      and "base c1 = Some b"
      and "Do_DisburseResponse env b
               (calls w1 @ [Call_encryptKey sess (PublicKey cf), Call_adapt disburse])
               (makeInternalRequest c1 disburse (Some payload) [WithRequestHeaders (headers token)]) = r"
    for cf token payload b r
    using assms that(1) by (simp add: Disburse_executes [OF _ that(2-6)])
  show ?thesis
    using session encrypt adapt_push adapt_disburse do_push do_disburse
    by (intro conjI allI impI) blast+
qed

text \<open>
  Scenario C on the stub gateway (the cached session has expired: one session call,
  then one push call, no error), a disbursement whose adaptation fails (no call of the
  executor), a push whose session refresh times out (nothing after the session step),
  and a push whose executor call fails (the executor's error comes back).
\<close>

theorem four_steps_in_order_witness:
  "PushAsync ex_env ex_client ''r1'' (ex_world 5) =
      Returned
        ((\<lparr>OutputErr = '''', PushAsyncFields = ''accepted''\<rparr>, None),
         ex_client\<lparr>sessionExpiration := 300000001003, sessionID := Some ''S1''\<rparr>,
         (ex_world 5)\<lparr>calls :=
            [Call_Now, Call_encryptKey ''key'' ''pub'', Call_Do sessionID_type, Call_Now,
             Call_encryptKey ''S1'' ''pub'', Call_adapt pushPay, Call_Do pushPay]\<rparr>)
   \<and> Disburse (ex_env\<lparr>adapt := (\<lambda>ra t request. Inl (errorString ''missing field: amount''))\<rparr>)
        ex_client ''r1'' (ex_world 5) =
      Returned
        ((\<lparr>OutputErr = '''', DisburseFields = ''''\<rparr>, Some (errorString ''missing field: amount'')),
         ex_client\<lparr>sessionExpiration := 300000001003, sessionID := Some ''S1''\<rparr>,
         (ex_world 5)\<lparr>calls :=
            [Call_Now, Call_encryptKey ''key'' ''pub'', Call_Do sessionID_type, Call_Now,
             Call_encryptKey ''S1'' ''pub'', Call_adapt disburse]\<rparr>)
   \<and> PushAsync (ex_env\<lparr>Do_SessionResponse := (\<lambda>b cs re.
          \<lparr>err = Some (errorString ''context deadline exceeded''), res_Error = None,
           out = SessionResponse_zero\<rparr>)\<rparr>)
        ex_client ''r1'' (ex_world 5) =
      Returned
        ((\<lparr>OutputErr = '''', PushAsyncFields = ''''\<rparr>, Some (errorString ''context deadline exceeded'')),
         ex_client,
         (ex_world 5)\<lparr>calls := [Call_Now, Call_encryptKey ''key'' ''pub'', Call_Do sessionID_type]\<rparr>)
   \<and> PushAsync (ex_env\<lparr>Do_PushAsyncResponse := (\<lambda>b cs re.
          \<lparr>err = Some (errorString ''connection refused''), res_Error = None,
           out = \<lparr>OutputErr = '''', PushAsyncFields = ''partial''\<rparr>\<rparr>)\<rparr>)
        ex_client ''r1'' (ex_world 5) =
      Returned
        ((\<lparr>OutputErr = '''', PushAsyncFields = ''partial''\<rparr>, Some (errorString ''connection refused'')),
         ex_client\<lparr>sessionExpiration := 300000001003, sessionID := Some ''S1''\<rparr>,
         (ex_world 5)\<lparr>calls :=
            [Call_Now, Call_encryptKey ''key'' ''pub'', Call_Do sessionID_type, Call_Now,
             Call_encryptKey ''S1'' ''pub'', Call_adapt pushPay, Call_Do pushPay]\<rparr>)"
proof -
  let ?c1 = "ex_client\<lparr>sessionExpiration := 300000001003, sessionID := Some ''S1''\<rparr>"
  let ?w1 = "(ex_world 5)\<lparr>calls :=
               [Call_Now, Call_encryptKey ''key'' ''pub'', Call_Do sessionID_type, Call_Now]\<rparr>"
  let ?env2 = "ex_env\<lparr>adapt := (\<lambda>ra t request. Inl (errorString ''missing field: amount''))\<rparr>"
  let ?env3 = "ex_env\<lparr>Do_SessionResponse := (\<lambda>b cs re.
          \<lparr>err = Some (errorString ''context deadline exceeded''), res_Error = None,
           out = SessionResponse_zero\<rparr>)\<rparr>"
  let ?env4 = "ex_env\<lparr>Do_PushAsyncResponse := (\<lambda>b cs re.
          \<lparr>err = Some (errorString ''connection refused''), res_Error = None,
           out = \<lparr>OutputErr = '''', PushAsyncFields = ''partial''\<rparr>\<rparr>)\<rparr>"
  let ?w3 = "(ex_world 5)\<lparr>calls := [Call_Now, Call_encryptKey ''key'' ''pub'', Call_Do sessionID_type]\<rparr>"
  have s1: "checkSessionID ex_env ex_client (ex_world 5) = Returned ((''S1'', None), ?c1, ?w1)"
    by (simp add: run_defs ex_defs)
  have s2: "checkSessionID ?env2 ex_client (ex_world 5) = Returned ((''S1'', None), ?c1, ?w1)"
    by (simp add: run_defs ex_defs)
  have s3: "checkSessionID ?env3 ex_client (ex_world 5)
              = Returned (('''', Some (errorString ''context deadline exceeded'')), ex_client, ?w3)"
    by (simp add: run_defs ex_defs)
  have s4: "checkSessionID ?env4 ex_client (ex_world 5) = Returned ((''S1'', None), ?c1, ?w1)"
    by (simp add: run_defs ex_defs)
  from four_steps_in_order [OF s1, of "''r1''"]
  have "PushAsync ex_env ex_client ''r1'' (ex_world 5) =
      Returned
        ((\<lparr>OutputErr = '''', PushAsyncFields = ''accepted''\<rparr>, None), ?c1,
         (ex_world 5)\<lparr>calls :=
            [Call_Now, Call_encryptKey ''key'' ''pub'', Call_Do sessionID_type, Call_Now,
             Call_encryptKey ''S1'' ''pub'', Call_adapt pushPay, Call_Do pushPay]\<rparr>)"
    by (simp add: ex_defs)
  moreover from four_steps_in_order [OF s2, of "''r1''"]
  have "Disburse ?env2 ex_client ''r1'' (ex_world 5) =
      Returned
        ((\<lparr>OutputErr = '''', DisburseFields = ''''\<rparr>, Some (errorString ''missing field: amount'')),
         ?c1,
         (ex_world 5)\<lparr>calls :=
            [Call_Now, Call_encryptKey ''key'' ''pub'', Call_Do sessionID_type, Call_Now,
             Call_encryptKey ''S1'' ''pub'', Call_adapt disburse]\<rparr>)"
    by (simp add: ex_defs DisburseResponse_zero_def)
  moreover from four_steps_in_order [OF s3, of "''r1''"]
  have "PushAsync ?env3 ex_client ''r1'' (ex_world 5) =
      Returned
        ((\<lparr>OutputErr = '''', PushAsyncFields = ''''\<rparr>, Some (errorString ''context deadline exceeded'')),
         ex_client, ?w3)"
    by (simp add: ex_defs PushAsyncResponse_zero_def)
  moreover from four_steps_in_order [OF s4, of "''r1''"]
  have "PushAsync ?env4 ex_client ''r1'' (ex_world 5) =
      Returned
        ((\<lparr>OutputErr = '''', PushAsyncFields = ''partial''\<rparr>, Some (errorString ''connection refused'')),
         ?c1,
         (ex_world 5)\<lparr>calls :=
            [Call_Now, Call_encryptKey ''key'' ''pub'', Call_Do sessionID_type, Call_Now,
             Call_encryptKey ''S1'' ''pub'', Call_adapt pushPay, Call_Do pushPay]\<rparr>)"
    by (simp add: ex_defs)
  ultimately show ?thesis
    by simp
qed


subsection \<open>CallbackServeHTTP\<close>

text \<open>
  C7. When the receiver fails to decode the inbound call, \<^verbatim>\<open>CallbackServeHTTP\<close> writes
  \<^verbatim>\<open>http.Error\<close> with the message of the decode error and status 500, and returns. The
  only call it made is the one to the receiver: the handler is not invoked (its
  invocation would show as \<open>Call_HandleCallback\<close>).
\<close>

theorem CallbackServeHTTP_decode_failure:
  assumes "rv c = Some receiver"
    and "Receive env receiver (calls w) request = Inl e"
  shows "CallbackServeHTTP env c writer request w =
           Returned (writer @ [http_Error (Error e) 500], w\<lparr>calls := calls w @ [Call_Receive]\<rparr>)"
  using assms by (simp add: CallbackServeHTTP_def called_def)

text \<open>On the stub, an empty body does not decode.\<close>

theorem CallbackServeHTTP_decode_failure_witness:
  "CallbackServeHTTP ex_env ex_client [] '''' (ex_world 5) =
     Returned ([http_Error ''unexpected end of JSON input'' 500], (ex_world 5)\<lparr>calls := [Call_Receive]\<rparr>)"
proof -
  have r: "rv ex_client = Some (NewReceiver ''stderr'' False)"
    by (simp add: ex_defs)
  have d: "Receive ex_env (NewReceiver ''stderr'' False) (calls (ex_world 5)) ''''
             = Inl (errorString ''unexpected end of JSON input'')"
    by (simp add: ex_defs)
  from CallbackServeHTTP_decode_failure [OF r d, of "[]"] show ?thesis
    by (simp add: ex_defs)
qed

text \<open>
  C8. When the inbound call decodes, the handler is invoked once and its outcome
  decides the reply: a result is handed to the replier as a response with status 200,
  the result as payload and the header \<open>Content-Type: application/json\<close>; an error is
  written by \<^verbatim>\<open>http.Error\<close> with the handler's message and status 500.
\<close>

theorem CallbackServeHTTP_handler_outcome:
  assumes "rv c = Some receiver"
    and "Receive env receiver (calls w) request = Inr reqBody"
    and "pushCallbackFunc c = Some handler"
  shows
    "(\<forall>resp replier. handler reqBody = (resp, None) \<and> rp c = Some replier \<longrightarrow>
        CallbackServeHTTP env c writer request w =
          Returned
            (writer @ [Reply replier
                         (NewResponse 200 resp
                            [WithMoreResponseHeaders [''Content-Type'' \<mapsto> ''application/json'']])],
             w\<lparr>calls := calls w @ [Call_Receive, Call_HandleCallback]\<rparr>))
   \<and> (\<forall>resp e. handler reqBody = (resp, Some e) \<longrightarrow>
        CallbackServeHTTP env c writer request w =
          Returned
            (writer @ [http_Error (Error e) 500],
             w\<lparr>calls := calls w @ [Call_Receive, Call_HandleCallback]\<rparr>))"
  using assms by (simp add: CallbackServeHTTP_def called_def)

text \<open>On the stub, the handler accepts \<open>paid\<close> and fails on \<open>boom\<close>.\<close>

theorem CallbackServeHTTP_handler_outcome_witness:
  "CallbackServeHTTP ex_env ex_client [] ''paid'' (ex_world 5) =
     Returned
       ([Reply (NewReplier ''stderr'' False)
           (NewResponse 200 ''ok:paid''
              [WithMoreResponseHeaders [''Content-Type'' \<mapsto> ''application/json'']])],
        (ex_world 5)\<lparr>calls := [Call_Receive, Call_HandleCallback]\<rparr>)
   \<and> CallbackServeHTTP ex_env ex_client [] ''boom'' (ex_world 5) =
     Returned
       ([http_Error ''handler failed'' 500],
        (ex_world 5)\<lparr>calls := [Call_Receive, Call_HandleCallback]\<rparr>)"
proof -
  have r: "rv ex_client = Some (NewReceiver ''stderr'' False)"
    and h: "pushCallbackFunc ex_client = Some ex_handler"
    by (simp_all add: ex_defs)
  have d1: "Receive ex_env (NewReceiver ''stderr'' False) (calls (ex_world 5)) ''paid'' = Inr ''paid''"
    and d2: "Receive ex_env (NewReceiver ''stderr'' False) (calls (ex_world 5)) ''boom'' = Inr ''boom''"
    by (simp_all add: ex_defs)
  from CallbackServeHTTP_handler_outcome [OF r d1 h, of "[]"]
       CallbackServeHTTP_handler_outcome [OF r d2 h, of "[]"]
  show ?thesis
    by (simp add: ex_defs)
qed

subsection \<open>NewClient\<close>

text \<open>Options that keep the configuration, or the session, keep it as a list too.\<close>

lemma fold_keeps_Conf:
  assumes "\<forall>opt\<in>set opts. keeps_Conf opt"
  shows "fst (fold (\<lambda>opt st. opt st) opts (h, c)) = h
       \<and> Conf (snd (fold (\<lambda>opt st. opt st) opts (h, c))) = Conf c"
  using assms
proof (induction opts arbitrary: h c)
  case Nil
  then show ?case by simp
next
  case (Cons opt opts)
  obtain h1 c1 where step: "opt (h, c) = (h1, c1)"
    by (cases "opt (h, c)")
  from Cons.prems have "keeps_Conf opt"
    by simp
  then have "fst (opt (h, c)) = h" and "Conf (snd (opt (h, c))) = Conf c"
    unfolding keeps_Conf_def by blast+
  with step have "h1 = h" and "Conf c1 = Conf c"
    by simp_all
  moreover from Cons.prems have "\<forall>opt\<in>set opts. keeps_Conf opt"
    by simp
  ultimately show ?case
    using Cons.IH [of h1 c1] step by simp
qed

lemma fold_keeps_session:
  assumes "\<forall>opt\<in>set opts. keeps_session opt"
  shows "sessionID (snd (fold (\<lambda>opt st. opt st) opts (h, c))) = sessionID c
       \<and> sessionExpiration (snd (fold (\<lambda>opt st. opt st) opts (h, c))) = sessionExpiration c"
  using assms
proof (induction opts arbitrary: h c)
  case Nil
  then show ?case by simp
next
  case (Cons opt opts)
  obtain h1 c1 where step: "opt (h, c) = (h1, c1)"
    by (cases "opt (h, c)")
  from Cons.prems have "keeps_session opt"
    by simp
  then have "sessionID (snd (opt (h, c))) = sessionID c"
    and "sessionExpiration (snd (opt (h, c))) = sessionExpiration c"
    unfolding keeps_session_def by blast+
  with step have "sessionID c1 = sessionID c" and "sessionExpiration c1 = sessionExpiration c"
    by simp_all
  moreover from Cons.prems have "\<forall>opt\<in>set opts. keeps_session opt"
    by simp
  ultimately show ?case
    using Cons.IH [of h1 c1] step by simp
qed

lemma NewClient_Returned:
  assumes "NewClient env conf cb opts w = Returned (c, w1)"
    and "confs w conf = Some cf0"
  obtains h c0 cf where
    "fold (\<lambda>opt st. opt st) opts
       (confs w,
        \<lparr>Conf = conf, base = Some (base_NewClient env), encryptedAPIKey = Some '''',
         sessionID = Some '''', sessionExpiration = Now env (calls w),
         pushCallbackFunc = cb, requestAdapter = None, rp = None, rv = None\<rparr>) = (h, c0)"
    and "h (Conf c0) = Some cf"
    and "confs w1 = h(Conf c0 \<mapsto> cf\<lparr>BasePath :=
           ''https://'' @ BasePath cf0 @ ''/'' @ Platform_String env (Platform cf) @ ''/ipg/v2/''
             @ Market_URLContextValue env (Market cf) @ ''/''\<rparr>)"
    and "calls w1 = calls w @ [Call_Now]"
    and "Conf c = Conf c0" and "sessionID c = sessionID c0"
    and "sessionExpiration c = sessionExpiration c0"
    and "base c = base c0" and "base c \<noteq> None"
    and "pushCallbackFunc c = pushCallbackFunc c0"
  using assms
  by (auto simp: NewClient_def time_Now_def called_def Let_def
        split: option.splits prod.splits)


text \<open>The stub construction, evaluated.\<close>

lemma ex_NewClient:
  "NewClient ex_env 0 (Some ex_handler) [ex_option] (ex_world 5) = Returned (ex_fresh_client, ex_fresh_world)"
  by (simp add: NewClient_def time_Now_def called_def Let_def ex_defs)

lemma ex_option_keeps: "keeps_Conf ex_option" "keeps_session ex_option"
  by (simp_all add: keeps_Conf_def keeps_session_def ex_option_def)




subsection \<open>What the client does to the configuration\<close>

lemma SessionID_frame:
  assumes "SessionID env c w = Returned (r, c', w')"
  shows "confs w' = confs w \<and> Conf c' = Conf c"
  using assms
  by (auto simp: SessionID_def getEncryptionKey_def Let_def time_Now_def called_def
        split: outcome.splits option.splits if_splits prod.splits sum.splits)

lemma checkSessionID_frame:
  assumes "checkSessionID env c w = Returned (r, c', w')"
  shows "confs w' = confs w \<and> Conf c' = Conf c"
proof (cases "Now env (calls w) < sessionExpiration c \<and> sessionID c \<noteq> None")
  case True
  with assms show ?thesis
    by (auto simp: checkSessionID_def time_Now_def called_def)
next
  case False
  then have miss: "(if Now env (calls w) < sessionExpiration c then sessionID c else None) = None"
    by auto
  from assms obtain r1 c1 w1 where "SessionID env c (called Call_Now w) = Returned (r1, c1, w1)"
    and "c' = c1" and "w' = w1"
    by (auto simp: checkSessionID_def time_Now_def miss split: outcome.splits option.splits prod.splits)
  with SessionID_frame [of env c "called Call_Now w" r1 c1 w1] show ?thesis
    by (simp add: called_def)
qed

lemma PushAsync_frame:
  assumes "PushAsync env c request w = Returned (r, c', w')"
  shows "confs w' = confs w \<and> Conf c' = Conf c"
proof -
  from assms obtain x c1 w1 where chk: "checkSessionID env c w = Returned (x, c1, w1)"
    and "c' = c1" and "confs w' = confs w1"
    by (auto simp: PushAsync_def Let_def called_def
          split: outcome.splits option.splits if_splits prod.splits sum.splits)
  with checkSessionID_frame [OF chk] show ?thesis
    by simp
qed

lemma Disburse_frame:
  assumes "Disburse env c request w = Returned (r, c', w')"
  shows "confs w' = confs w \<and> Conf c' = Conf c"
proof -
  from assms obtain x c1 w1 where chk: "checkSessionID env c w = Returned (x, c1, w1)"
    and "c' = c1" and "confs w' = confs w1"
    by (auto simp: Disburse_def Let_def called_def
          split: outcome.splits option.splits if_splits prod.splits sum.splits)
  with checkSessionID_frame [OF chk] show ?thesis
    by simp
qed

lemma CallbackServeHTTP_frame:
  assumes "CallbackServeHTTP env c writer request w = Returned (writer', w')"
  shows "confs w' = confs w"
  using assms
  by (auto simp: CallbackServeHTTP_def Let_def called_def
        split: outcome.splits option.splits if_splits prod.splits sum.splits)

lemma run_op_frame:
  assumes "run_op env x c w = Returned (c', w')"
  shows "confs w' = confs w \<and> Conf c' = Conf c"
proof (cases x)
  case Op_SessionID
  with assms show ?thesis
    by (auto simp: run_op_def split: outcome.splits dest: SessionID_frame)
next
  case (Op_PushAsync request)
  with assms show ?thesis
    by (auto simp: run_op_def split: outcome.splits dest: PushAsync_frame)
next
  case (Op_Disburse request)
  with assms show ?thesis
    by (auto simp: run_op_def split: outcome.splits dest: Disburse_frame)
next
  case (Op_CallbackServeHTTP writer request)
  with assms show ?thesis
    by (auto simp: run_op_def split: outcome.splits dest: CallbackServeHTTP_frame)
qed

lemma run_ops_frame:
  assumes "run_ops env xs c w = Returned (c', w')"
  shows "confs w' = confs w \<and> Conf c' = Conf c"
  using assms
proof (induction xs arbitrary: c w)
  case Nil
  then show ?case by simp
next
  case (Cons x xs)
  from Cons.prems obtain c1 w1 where one: "run_op env x c w = Returned (c1, w1)"
    and rest: "run_ops env xs c1 w1 = Returned (c', w')"
    by (auto split: outcome.splits)
  from run_op_frame [OF one] Cons.IH [OF rest] show ?case
    by simp
qed



text \<open>
  C5 (as the code has it). \<^verbatim>\<open>NewClient\<close> keeps the caller's pointer and writes the derived
  base path through it: after construction the supplied \<^verbatim>\<open>Config\<close> object differs from
  what the caller supplied in \<^verbatim>\<open>BasePath\<close>, and in nothing else. No sequence of
  operations on the client changes any \<^verbatim>\<open>Config\<close> object afterwards. (The options are
  taken to keep the configuration.)
\<close>

theorem NewClient_writes_only_BasePath:
  assumes "NewClient env conf cb opts w = Returned (c, w1)"
    and "\<forall>opt\<in>set opts. keeps_Conf opt"
    and "confs w conf = Some cf"
    and "run_ops env ops c w1 = Returned (c2, w2)"
  shows "Conf c = conf
       \<and> confs w1 = (confs w)(conf \<mapsto> cf\<lparr>BasePath :=
             ''https://'' @ BasePath cf @ ''/'' @ Platform_String env (Platform cf)
               @ ''/ipg/v2/'' @ Market_URLContextValue env (Market cf) @ ''/''\<rparr>)
       \<and> Conf c2 = conf
       \<and> confs w2 = confs w1"
proof -
  from assms(1,3) obtain h c0 cf1 where
    opts: "fold (\<lambda>opt st. opt st) opts
       (confs w,
        \<lparr>Conf = conf, base = Some (base_NewClient env), encryptedAPIKey = Some '''',
         sessionID = Some '''', sessionExpiration = Now env (calls w),
         pushCallbackFunc = cb, requestAdapter = None, rp = None, rv = None\<rparr>) = (h, c0)"
    and own: "h (Conf c0) = Some cf1"
    and store: "confs w1 = h(Conf c0 \<mapsto> cf1\<lparr>BasePath :=
           ''https://'' @ BasePath cf @ ''/'' @ Platform_String env (Platform cf1) @ ''/ipg/v2/''
             @ Market_URLContextValue env (Market cf1) @ ''/''\<rparr>)"
    and ptr: "Conf c = Conf c0"
    by (rule NewClient_Returned)
  from fold_keeps_Conf [OF assms(2), of "confs w"] opts
  have "h = confs w" and "Conf c0 = conf"
    by (metis fst_conv, metis snd_conv Client.select_convs(1))
  with own assms(3) store ptr have "Conf c = conf"
    and "confs w1 = (confs w)(conf \<mapsto> cf\<lparr>BasePath :=
             ''https://'' @ BasePath cf @ ''/'' @ Platform_String env (Platform cf)
               @ ''/ipg/v2/'' @ Market_URLContextValue env (Market cf) @ ''/''\<rparr>)"
    by simp_all
  with run_ops_frame [OF assms(4)] show ?thesis
    by simp
qed


theorem NewClient_writes_only_BasePath_witness:
  "Conf ex_fresh_client = 0
   \<and> confs ex_fresh_world = (confs (ex_world 5))(0 \<mapsto> (ex_conf 5)\<lparr>BasePath :=
        ''https://openapi.m-pesa.com/openapi/ipg/v2/vodacomTZN/''\<rparr>)
   \<and> run_ops ex_env [Op_SessionID, Op_CallbackServeHTTP [] ''paid''] ex_fresh_client ex_fresh_world
       = Returned
           (ex_fresh_client\<lparr>sessionExpiration := 300000001003, sessionID := Some ''S1''\<rparr>,
            ex_fresh_world\<lparr>calls :=
              [Call_Now, Call_encryptKey ''key'' ''pub'', Call_Do sessionID_type, Call_Now,
               Call_Receive, Call_HandleCallback]\<rparr>)"
proof -
  have keep: "\<forall>opt\<in>set [ex_option]. keeps_Conf opt"
    by (simp add: ex_option_keeps)
  have cf: "confs (ex_world 5) 0 = Some (ex_conf 5)"
    by (simp add: ex_defs)
  have run: "run_ops ex_env [Op_SessionID, Op_CallbackServeHTTP [] ''paid''] ex_fresh_client ex_fresh_world
       = Returned
           (ex_fresh_client\<lparr>sessionExpiration := 300000001003, sessionID := Some ''S1''\<rparr>,
            ex_fresh_world\<lparr>calls :=
              [Call_Now, Call_encryptKey ''key'' ''pub'', Call_Do sessionID_type, Call_Now,
               Call_Receive, Call_HandleCallback]\<rparr>)"
    by (simp add: run_op_def CallbackServeHTTP_def run_defs ex_defs)
  from NewClient_writes_only_BasePath [OF ex_NewClient keep cf run] run show ?thesis
    by (simp add: ex_env_def ex_conf_def)
qed


text \<open>
  C5 as written fails: the caller's \<^verbatim>\<open>Config\<close> at address 0 has the base path
  \<open>openapi.m-pesa.com\<close> before \<^verbatim>\<open>NewClient\<close> and the derived URL after it.
\<close>

theorem Config_BasePath_counterexample:
  "NewClient ex_env 0 (Some ex_handler) [ex_option] (ex_world 5) = Returned (ex_fresh_client, ex_fresh_world)
   \<and> map_option BasePath (confs (ex_world 5) 0) = Some ''openapi.m-pesa.com''
   \<and> map_option BasePath (confs ex_fresh_world 0)
        = Some ''https://openapi.m-pesa.com/openapi/ipg/v2/vodacomTZN/''"
  by (simp add: NewClient_def time_Now_def called_def Let_def ex_defs)


subsection \<open>The session of a fresh client\<close>

lemma checkSessionID_expired:
  assumes "sessionExpiration c \<le> Now env (calls w)"
  shows "checkSessionID env c w =
           (case SessionID env c (called Call_Now w) of
              Panicked m \<Rightarrow> Panicked m
            | Returned ((response, Some e), c1, w2) \<Rightarrow> Returned (('''', Some e), c1, w2)
            | Returned ((response, None), c1, w2) \<Rightarrow> Returned ((ID response, None), c1, w2))"
  using assms by (simp add: checkSessionID_def time_Now_def)

lemma SessionID_attempt:
  assumes "confs w (Conf c) = Some cf" and "base c = Some b"
    and "encryptKey env (calls w) (APIKey cf) (PublicKey cf) = Inr token"
  shows "\<exists>r c1 w1 rest. SessionID env c w = Returned (r, c1, w1)
           \<and> calls w1 = calls w @ [Call_encryptKey (APIKey cf) (PublicKey cf), Call_Do sessionID_type] @ rest
           \<and> confs w1 = confs w \<and> Conf c1 = Conf c \<and> base c1 = base c"
  using assms
  by (auto simp: SessionID_def getEncryptionKey_def called_def time_Now_def Let_def
        split: option.splits)

lemma SessionID_attempt_fails:
  assumes "confs w (Conf c) = Some cf"
    and "encryptKey env (calls w) (APIKey cf) (PublicKey cf) = Inl e"
  shows "SessionID env c w =
           Returned ((SessionResponse_zero, Some e), c,
                     w\<lparr>calls := calls w @ [Call_encryptKey (APIKey cf) (PublicKey cf)]\<rparr>)"
  using assms by (simp add: SessionID_def getEncryptionKey_def called_def)

lemma checkSessionID_refreshes:
  assumes "sessionExpiration c \<le> Now env (calls w)"
    and "confs w (Conf c) = Some cf" and "base c = Some b"
    and "encryptKey env (calls w @ [Call_Now]) (APIKey cf) (PublicKey cf) = Inr token"
  shows "\<exists>r c1 w1 rest. checkSessionID env c w = Returned (r, c1, w1)
           \<and> calls w1 = calls w @
               [Call_Now, Call_encryptKey (APIKey cf) (PublicKey cf), Call_Do sessionID_type] @ rest
           \<and> confs w1 = confs w \<and> Conf c1 = Conf c \<and> base c1 = base c"
proof -
  from SessionID_attempt [of "called Call_Now w" c cf b env token] assms(2-4)
  obtain r c1 w1 rest where run: "SessionID env c (called Call_Now w) = Returned (r, c1, w1)"
    and tr: "calls w1 = calls w @
               [Call_Now, Call_encryptKey (APIKey cf) (PublicKey cf), Call_Do sessionID_type] @ rest"
    and fr: "confs w1 = confs w" "Conf c1 = Conf c" "base c1 = base c"
    by (auto simp: called_def)
  obtain resp oe where r: "r = (resp, oe)"
    by (cases r)
  show ?thesis
    using checkSessionID_expired [OF assms(1)] run r tr fr
    by (cases oe) auto
qed

lemma PushAsync_extends:
  assumes "checkSessionID env c w = Returned (x, c1, w1)"
    and "confs w1 (Conf c1) = Some cf" and "base c1 = Some b"
  shows "\<exists>r w2 rest. PushAsync env c request w = Returned (r, c1, w2) \<and> calls w2 = calls w1 @ rest"
  using assms
  by (cases x) (auto simp: PushAsync_def called_def Let_def split: option.splits sum.splits)

lemma Disburse_extends:
  assumes "checkSessionID env c w = Returned (x, c1, w1)"
    and "confs w1 (Conf c1) = Some cf" and "base c1 = Some b"
  shows "\<exists>r w2 rest. Disburse env c request w = Returned (r, c1, w2) \<and> calls w2 = calls w1 @ rest"
  using assms
  by (cases x) (auto simp: Disburse_def called_def Let_def split: option.splits sum.splits)

lemma PushAsync_refreshes:
  assumes "sessionExpiration c \<le> Now env (calls w)"
    and "confs w (Conf c) = Some cf" and "base c = Some b"
    and "encryptKey env (calls w @ [Call_Now]) (APIKey cf) (PublicKey cf) = Inr token"
  shows "\<exists>r c1 w2 rest. PushAsync env c request w = Returned (r, c1, w2)
           \<and> calls w2 = calls w @
               [Call_Now, Call_encryptKey (APIKey cf) (PublicKey cf), Call_Do sessionID_type] @ rest"
proof -
  from checkSessionID_refreshes [OF assms]
  obtain x c1 w1 rest where chk: "checkSessionID env c w = Returned (x, c1, w1)"
    and tr: "calls w1 = calls w @
               [Call_Now, Call_encryptKey (APIKey cf) (PublicKey cf), Call_Do sessionID_type] @ rest"
    and fr: "confs w1 = confs w" "Conf c1 = Conf c" "base c1 = base c"
    by blast
  from fr assms(2,3) have "confs w1 (Conf c1) = Some cf" and "base c1 = Some b"
    by simp_all
  from PushAsync_extends [OF chk this, of request]
  obtain r w2 rest' where "PushAsync env c request w = Returned (r, c1, w2)"
    and "calls w2 = calls w1 @ rest'"
    by blast
  with tr show ?thesis
    by simp
qed

lemma Disburse_refreshes:
  assumes "sessionExpiration c \<le> Now env (calls w)"
    and "confs w (Conf c) = Some cf" and "base c = Some b"
    and "encryptKey env (calls w @ [Call_Now]) (APIKey cf) (PublicKey cf) = Inr token"
  shows "\<exists>r c1 w2 rest. Disburse env c request w = Returned (r, c1, w2)
           \<and> calls w2 = calls w @
               [Call_Now, Call_encryptKey (APIKey cf) (PublicKey cf), Call_Do sessionID_type] @ rest"
proof -
  from checkSessionID_refreshes [OF assms]
  obtain x c1 w1 rest where chk: "checkSessionID env c w = Returned (x, c1, w1)"
    and tr: "calls w1 = calls w @
               [Call_Now, Call_encryptKey (APIKey cf) (PublicKey cf), Call_Do sessionID_type] @ rest"
    and fr: "confs w1 = confs w" "Conf c1 = Conf c" "base c1 = base c"
    by blast
  from fr assms(2,3) have "confs w1 (Conf c1) = Some cf" and "base c1 = Some b"
    by simp_all
  from Disburse_extends [OF chk this, of request]
  obtain r w2 rest' where "Disburse env c request w = Returned (r, c1, w2)"
    and "calls w2 = calls w1 @ rest'"
    by blast
  with tr show ?thesis
    by simp
qed

lemma refresh_fails:
  assumes "sessionExpiration c \<le> Now env (calls w)"
    and "confs w (Conf c) = Some cf"
    and "encryptKey env (calls w @ [Call_Now]) (APIKey cf) (PublicKey cf) = Inl e"
  shows "PushAsync env c request w =
           Returned ((PushAsyncResponse_zero env, Some e), c,
                     w\<lparr>calls := calls w @ [Call_Now, Call_encryptKey (APIKey cf) (PublicKey cf)]\<rparr>)"
    and "Disburse env c request w =
           Returned ((DisburseResponse_zero env, Some e), c,
                     w\<lparr>calls := calls w @ [Call_Now, Call_encryptKey (APIKey cf) (PublicKey cf)]\<rparr>)"
proof -
  from SessionID_attempt_fails [of "called Call_Now w" c cf env e] assms(2,3)
  have "SessionID env c (called Call_Now w) =
          Returned ((SessionResponse_zero, Some e), c,
                    w\<lparr>calls := calls w @ [Call_Now, Call_encryptKey (APIKey cf) (PublicKey cf)]\<rparr>)"
    by (simp add: called_def)
  with checkSessionID_expired [OF assms(1)]
  have chk: "checkSessionID env c w =
          Returned (('''', Some e), c,
                    w\<lparr>calls := calls w @ [Call_Now, Call_encryptKey (APIKey cf) (PublicKey cf)]\<rparr>)"
    by simp
  show "PushAsync env c request w =
           Returned ((PushAsyncResponse_zero env, Some e), c,
                     w\<lparr>calls := calls w @ [Call_Now, Call_encryptKey (APIKey cf) (PublicKey cf)]\<rparr>)"
    by (rule PushAsync_session_fails [OF chk])
  show "Disburse env c request w =
           Returned ((DisburseResponse_zero env, Some e), c,
                     w\<lparr>calls := calls w @ [Call_Now, Call_encryptKey (APIKey cf) (PublicKey cf)]\<rparr>)"
    by (rule Disburse_session_fails [OF chk])
qed


text \<open>
  C10 (as the code has it). When the options leave the session fields alone, the
  client that \<^verbatim>\<open>NewClient\<close> returns has the empty string as cached session id and the
  instant of construction as cached expiration. So at any clock reading that is not
  before that instant, \<^verbatim>\<open>PushAsync\<close> and \<^verbatim>\<open>Disburse\<close> on that client start with the session
  refresh: the clock is read, the API key is encrypted, and the executor is called
  for a session before anything else; if the encryption of the API key fails, the
  operation ends there with that error.
\<close>

theorem fresh_client_must_refresh:
  assumes "NewClient env conf cb opts w = Returned (c, w1)"
    and "\<forall>opt\<in>set opts. keeps_session opt"
  shows "sessionExpiration c = Now env (calls w) \<and> sessionID c = Some ''''
       \<and> (\<forall>w2 cf request.
            Now env (calls w) \<le> Now env (calls w2) \<and> confs w2 (Conf c) = Some cf \<longrightarrow>
              (\<forall>token. encryptKey env (calls w2 @ [Call_Now]) (APIKey cf) (PublicKey cf) = Inr token \<longrightarrow>
                 (\<exists>r c2 w3 rest. PushAsync env c request w2 = Returned (r, c2, w3)
                    \<and> calls w3 = calls w2 @
                        [Call_Now, Call_encryptKey (APIKey cf) (PublicKey cf), Call_Do sessionID_type] @ rest)
               \<and> (\<exists>r c2 w3 rest. Disburse env c request w2 = Returned (r, c2, w3)
                    \<and> calls w3 = calls w2 @
                        [Call_Now, Call_encryptKey (APIKey cf) (PublicKey cf), Call_Do sessionID_type] @ rest))
            \<and> (\<forall>e. encryptKey env (calls w2 @ [Call_Now]) (APIKey cf) (PublicKey cf) = Inl e \<longrightarrow>
                 PushAsync env c request w2 =
                   Returned ((PushAsyncResponse_zero env, Some e), c,
                             w2\<lparr>calls := calls w2 @ [Call_Now, Call_encryptKey (APIKey cf) (PublicKey cf)]\<rparr>)
               \<and> Disburse env c request w2 =
                   Returned ((DisburseResponse_zero env, Some e), c,
                             w2\<lparr>calls := calls w2 @ [Call_Now, Call_encryptKey (APIKey cf) (PublicKey cf)]\<rparr>)))"
proof -
  from assms(1) obtain cf0 where "confs w conf = Some cf0"
    by (cases "confs w conf") (simp_all add: NewClient_def)
  with assms(1) obtain h c0 where
    opts: "fold (\<lambda>opt st. opt st) opts
       (confs w,
        \<lparr>Conf = conf, base = Some (base_NewClient env), encryptedAPIKey = Some '''',
         sessionID = Some '''', sessionExpiration = Now env (calls w),
         pushCallbackFunc = cb, requestAdapter = None, rp = None, rv = None\<rparr>) = (h, c0)"
    and same: "sessionID c = sessionID c0" "sessionExpiration c = sessionExpiration c0"
    and b: "base c \<noteq> None"
    by (rule NewClient_Returned)
  from fold_keeps_session [OF assms(2), of "confs w"] opts same
  have fresh: "sessionExpiration c = Now env (calls w)" "sessionID c = Some ''''"
    by (metis snd_conv Client.select_convs(5), metis snd_conv Client.select_convs(4))
  from b obtain bc where bc: "base c = Some bc"
    by blast
  have "(\<forall>token. encryptKey env (calls w2 @ [Call_Now]) (APIKey cf) (PublicKey cf) = Inr token \<longrightarrow>
                 (\<exists>r c2 w3 rest. PushAsync env c request w2 = Returned (r, c2, w3)
                    \<and> calls w3 = calls w2 @
                        [Call_Now, Call_encryptKey (APIKey cf) (PublicKey cf), Call_Do sessionID_type] @ rest)
               \<and> (\<exists>r c2 w3 rest. Disburse env c request w2 = Returned (r, c2, w3)
                    \<and> calls w3 = calls w2 @
                        [Call_Now, Call_encryptKey (APIKey cf) (PublicKey cf), Call_Do sessionID_type] @ rest))
            \<and> (\<forall>e. encryptKey env (calls w2 @ [Call_Now]) (APIKey cf) (PublicKey cf) = Inl e \<longrightarrow>
                 PushAsync env c request w2 =
                   Returned ((PushAsyncResponse_zero env, Some e), c,
                             w2\<lparr>calls := calls w2 @ [Call_Now, Call_encryptKey (APIKey cf) (PublicKey cf)]\<rparr>)
               \<and> Disburse env c request w2 =
                   Returned ((DisburseResponse_zero env, Some e), c,
                             w2\<lparr>calls := calls w2 @ [Call_Now, Call_encryptKey (APIKey cf) (PublicKey cf)]\<rparr>))"
    if later: "Now env (calls w) \<le> Now env (calls w2)" and cf: "confs w2 (Conf c) = Some cf"
    for w2 cf request
  proof -
    from later fresh have expired: "sessionExpiration c \<le> Now env (calls w2)"
      by simp
    show ?thesis
      using PushAsync_refreshes [OF expired cf bc, of _ request]
        Disburse_refreshes [OF expired cf bc, of _ request]
        refresh_fails [OF expired cf, of _ request]
      by blast
  qed
  with fresh show ?thesis
    by blast
qed


theorem fresh_client_must_refresh_witness:
  "sessionExpiration ex_fresh_client = 1000 \<and> sessionID ex_fresh_client = Some ''''
   \<and> (\<exists>r c2 w3 rest. PushAsync ex_env ex_fresh_client ''r1'' ex_fresh_world = Returned (r, c2, w3)
        \<and> calls w3 = [Call_Now] @ [Call_Now, Call_encryptKey ''key'' ''pub'', Call_Do sessionID_type] @ rest)
   \<and> (\<exists>r c2 w3 rest. Disburse ex_env ex_fresh_client ''r1'' ex_fresh_world = Returned (r, c2, w3)
        \<and> calls w3 = [Call_Now] @ [Call_Now, Call_encryptKey ''key'' ''pub'', Call_Do sessionID_type] @ rest)"
proof -
  have keep: "\<forall>opt\<in>set [ex_option]. keeps_session opt"
    by (simp add: ex_option_keeps)
  have later: "Now ex_env (calls (ex_world 5)) \<le> Now ex_env (calls ex_fresh_world)"
    and cf: "confs ex_fresh_world (Conf ex_fresh_client)
               = Some ((ex_conf 5)\<lparr>BasePath := ''https://openapi.m-pesa.com/openapi/ipg/v2/vodacomTZN/''\<rparr>)"
    and tok: "encryptKey ex_env (calls ex_fresh_world @ [Call_Now])
                (APIKey ((ex_conf 5)\<lparr>BasePath := ''https://openapi.m-pesa.com/openapi/ipg/v2/vodacomTZN/''\<rparr>))
                (PublicKey ((ex_conf 5)\<lparr>BasePath := ''https://openapi.m-pesa.com/openapi/ipg/v2/vodacomTZN/''\<rparr>))
              = Inr ''enc:key''"
    by (simp_all add: ex_defs)
  from fresh_client_must_refresh [OF ex_NewClient keep]
  have a: "sessionExpiration ex_fresh_client = Now ex_env (calls (ex_world 5))"
    and b: "sessionID ex_fresh_client = Some ''''"
    and c: "\<And>w2 cf request token.
            Now ex_env (calls (ex_world 5)) \<le> Now ex_env (calls w2) \<Longrightarrow>
            confs w2 (Conf ex_fresh_client) = Some cf \<Longrightarrow>
            encryptKey ex_env (calls w2 @ [Call_Now]) (APIKey cf) (PublicKey cf) = Inr token \<Longrightarrow>
                 (\<exists>r c2 w3 rest. PushAsync ex_env ex_fresh_client request w2 = Returned (r, c2, w3)
                    \<and> calls w3 = calls w2 @
                        [Call_Now, Call_encryptKey (APIKey cf) (PublicKey cf), Call_Do sessionID_type] @ rest)
               \<and> (\<exists>r c2 w3 rest. Disburse ex_env ex_fresh_client request w2 = Returned (r, c2, w3)
                    \<and> calls w3 = calls w2 @
                        [Call_Now, Call_encryptKey (APIKey cf) (PublicKey cf), Call_Do sessionID_type] @ rest)"
    by blast+
  from a b c [OF later cf tok, of "''r1''"] show ?thesis
    by (simp add: ex_env_def ex_world_def ex_conf_def ex_fresh_world_def)
qed

text \<open>
  C10 as written fails when an option sets the session fields, for the options run
  after the constructor has filled them: built at instant 1000 with the option above,
  the client comes back with the session \<open>PRE\<close> valid until 5000, and its first push,
  at instant 1001, uses that session and makes no session call.
\<close>

theorem fresh_client_preset_session_counterexample:
  "Now ex_env (calls (ex_world 5)) = 1000
   \<and> NewClient ex_env 0 (Some ex_handler) [ex_session_option] (ex_world 5) =
       Returned (ex_client\<lparr>sessionID := Some ''PRE'', sessionExpiration := 5000\<rparr>, ex_fresh_world)
   \<and> PushAsync ex_env (ex_client\<lparr>sessionID := Some ''PRE'', sessionExpiration := 5000\<rparr>) ''r1''
        ex_fresh_world =
       Returned
         ((\<lparr>OutputErr = '''', PushAsyncFields = ''accepted''\<rparr>, None),
          ex_client\<lparr>sessionID := Some ''PRE'', sessionExpiration := 5000\<rparr>,
          ex_fresh_world\<lparr>calls :=
            [Call_Now, Call_Now, Call_encryptKey ''PRE'' ''pub'', Call_adapt pushPay, Call_Do pushPay]\<rparr>)"
  by (simp add: NewClient_def PushAsync_def run_defs ex_defs ex_session_option_def)

end
